theory Spec2Isabelle
  imports Main "HOL-Library.Char_ord" "HOL-Library.List_Lexorder"
begin

section \<open>JavaScript values used by check-appointments.js\<close>

text \<open>
  A JavaScript string is a \<open>string\<close>: one \<open>char\<close> per code unit, so the model
  covers the strings whose code units are below 256 (identifiers, ISO dates and
  timestamps are). The order \<open><\<close> on strings is the lexicographic order of the code
  units (\<open>List_Lexorder\<close> over \<open>Char_ord\<close>), a proper prefix being smaller: what
  JavaScript's \<open><\<close> computes on two strings. The pictographs in the string literals
  of the source (and the blank after each) are left out of the modelled lines.
\<close>

text \<open>\<open>s.split(sep)\<close> for a separator of one code unit.\<close>

fun js_split :: "char \<Rightarrow> string \<Rightarrow> string list" where
  "js_split sep [] = [[]]"
| "js_split sep (c # cs) =
     (if c = sep then [] # js_split sep cs
      else (case js_split sep cs of [] \<Rightarrow> [[c]] | w # ws \<Rightarrow> (c # w) # ws))"

text \<open>The white space and line terminators of \<open>s.trim()\<close> among the code units
  below 256: TAB, LF, VT, FF, CR, SP and NBSP.\<close>

definition is_whitespace :: "char \<Rightarrow> bool" where
  "is_whitespace c = (of_char c \<in> {9, 10, 11, 12, 13, 32, 160 :: nat})"

definition js_trim :: "string \<Rightarrow> string" where
  "js_trim s = rev (dropWhile is_whitespace (rev (dropWhile is_whitespace s)))"

text \<open>A value that is a string or \<open>undefined\<close> (an environment variable, a
  configuration field): \<open>!v\<close> holds for \<open>undefined\<close> and for the empty string.\<close>

definition truthy :: "string option \<Rightarrow> bool" where
  "truthy v = (case v of None \<Rightarrow> False | Some s \<Rightarrow> s \<noteq> [])"

definition js_or :: "string option \<Rightarrow> string option \<Rightarrow> string option" where
  "js_or a b = (if truthy a then a else b)"

definition or_default :: "string option \<Rightarrow> string \<Rightarrow> string" where
  "or_default a d = (case a of None \<Rightarrow> d | Some s \<Rightarrow> if s = [] then d else s)"

text \<open>The decimal text of a length or counter inside a template literal.\<close>

fun js_String :: "nat \<Rightarrow> string" where
  "js_String n =
     (if n < 10 then [''0123456789'' ! n]
      else js_String (n div 10) @ [''0123456789'' ! (n mod 10)])"

declare js_String.simps [simp del]

text \<open>
  The values \<open>JSON.parse\<close> returns. A number is named by the text
  \<open>JSON.stringify\<close> prints for it, so that two numbers are the same value exactly
  when their texts are equal.
\<close>

datatype json =
    JNull
  | JBool bool
  | JNum string
  | JStr string
  | JArr "json list"
  | JObj "(string \<times> json) list"

text \<open>What is thrown (an \<open>Error\<close> object with its message), and
  \<open>process.exit(code)\<close>, which ends the process at once.\<close>

datatype exn = Error string | ProcessExit nat

section \<open>The data model\<close>

record location =
  loc_id :: string
  loc_name :: string
  targetDate :: string

record slot =
  startTimestamp :: string

record smtp_config =
  host :: string
  port :: int
  secure :: bool
  auth_user :: "string option"
  auth_pass :: "string option"

record config =
  smtp :: smtp_config
  emailTo :: "string option"
  locations :: "location list"

text \<open>The argument of \<open>transporter.sendMail\<close>.\<close>

record mail =
  mail_from :: "string option"
  mail_to :: "string option"
  mail_subject :: string
  mail_text :: string
  mail_html :: string

text \<open>
  The file \<open>.notified-appointments.json\<close>: absent, present but not readable, or
  present with a text. The text is represented by what \<open>JSON.parse\<close> makes of it:
  \<open>None\<close> when the text is not JSON (a \<open>SyntaxError\<close>). \<open>JSON.parse\<close> of
  what \<open>JSON.stringify\<close> printed for an array is that array again, so writing an
  array leaves \<open>Text (Some (JArr xs))\<close>.
\<close>

datatype store_file = NoFile | Unreadable string | Text "json option"

text \<open>The outcome of the request of \<open>checkLocation\<close>: a 2xx response with its body
  (a list of slots, or \<open>None\<close> for an empty or null body), or the message of the error
  axios throws (transport failure, timeout, status outside 2xx).\<close>

datatype http_result = Response "slot list option" | Failure string

text \<open>
  What the run does to the world, in order: console output, and every call of the
  network, the mail relay, the file system and the timer with its outcome (for a mail
  and a write: \<open>None\<close> on success, the error's message otherwise).
\<close>

datatype event =
    Log string
  | Err string
  | HttpGet string http_result
  | SendMail mail "string option"
  | WriteFile "json list" "string option"
  | Sleep nat

fun is_WriteFile :: "event \<Rightarrow> bool" where
  "is_WriteFile (WriteFile content r) = True"
| "is_WriteFile e = False"

fun is_SendMail :: "event \<Rightarrow> bool" where
  "is_SendMail (SendMail m r) = True"
| "is_SendMail e = False"

fun is_console :: "event \<Rightarrow> bool" where
  "is_console (Log line) = True"
| "is_console (Err line) = True"
| "is_console e = False"

text \<open>
  The world the script runs in: the environment variables (\<open>SMTP_PORT\<close> as
  \<open>parseInt\<close> reads it, \<open>None\<close> for \<open>NaN\<close>), the file at start, and the answers of
  the endpoint, the mail relay, the file system and the clock, each of which may depend
  on everything that happened before. A failed write says which file it leaves behind.
  \<open>stack_frames\<close> is the rest of the stack of an error thrown at that point:
  what the console prints after the first line \<open>Error: message\<close> when it prints
  the error object (the line break and the \<open>at ...\<close> lines).
\<close>

record world =
  SMTP_HOST :: "string option"
  SMTP_PORT :: "int option"
  SMTP_USER :: "string option"
  SMTP_PASS :: "string option"
  EMAIL_TO :: "string option"
  LOCATIONS :: "string option"
  notified_file :: store_file
  axios_get :: "event list \<Rightarrow> string \<Rightarrow> http_result"
  sendMail :: "event list \<Rightarrow> mail \<Rightarrow> string option"
  writeFileSync :: "event list \<Rightarrow> json list \<Rightarrow> (string \<times> store_file) option"
  formatDate :: "string \<Rightarrow> string"
  toISOString :: "event list \<Rightarrow> string"
  toLocaleString :: "event list \<Rightarrow> string"
  stack_frames :: "event list \<Rightarrow> string"

text \<open>A call returns a value or throws; an effectful function takes the trace so far
  and gives the extended one back, also when it throws.\<close>

type_synonym 'a result = "(exn \<times> event list) + 'a"

section \<open>parseLocations\<close>

text \<open>The callback of \<open>map\<close>: the record, or \<open>null\<close> with the error it logs.\<close>

definition parseEntry :: "string \<Rightarrow> location option \<times> event list" where
  "parseEntry loc =
     (let parts = js_split CHR '':'' (js_trim loc) in
      if length parts \<noteq> 3 then (None, [Err (''Invalid location format: '' @ loc)])
      else (Some \<lparr>loc_id = parts ! 0, loc_name = parts ! 1, targetDate = parts ! 2\<rparr>, []))"

definition parseLocations :: "string \<Rightarrow> location list \<times> event list" where
  "parseLocations locationsString =
     (if locationsString = [] then
        ([], [Err ''ERROR: LOCATIONS environment variable not set'',
              Log ''Format: \"locationId:name:targetDate,locationId:name:targetDate\"'',
              Log ''Example: \"5140:JFK Terminal 4:2025-04-01,5183:Newark:2025-04-01\"''])
      else
        (let rs = map parseEntry (js_split CHR '','' locationsString)
         in (List.map_filter fst rs, concat (map snd rs))))"

text \<open>The object \<open>CONFIG\<close>, built when the module is loaded, with what building it
  logs.\<close>

definition CONFIG :: "world \<Rightarrow> config \<times> event list" where
  "CONFIG w =
     (let (locs, tr) = parseLocations (or_default (LOCATIONS w) [])
      in (\<lparr>smtp = \<lparr>host = or_default (SMTP_HOST w) ''smtp.gmail.com'',
                    port = (case SMTP_PORT w of None \<Rightarrow> 587
                            | Some n \<Rightarrow> if n = 0 then 587 else n),
                    secure = False,
                    auth_user = SMTP_USER w,
                    auth_pass = SMTP_PASS w\<rparr>,
           emailTo = js_or (EMAIL_TO w) (SMTP_USER w),
           locations = locs\<rparr>, tr))"

section \<open>The notification store\<close>

text \<open>
  A JavaScript \<open>Set\<close> is the list of its elements in insertion order. Two elements
  are the same under SameValueZero when they are equal primitive values; an array or
  an object that \<open>JSON.parse\<close> built is the same as no other value.
\<close>

fun same_value_zero :: "json \<Rightarrow> json \<Rightarrow> bool" where
  "same_value_zero (JArr xs) b = False"
| "same_value_zero (JObj kvs) b = False"
| "same_value_zero a b = (a = b)"

definition set_has :: "json list \<Rightarrow> json \<Rightarrow> bool" where
  "set_has s v = list_ex (\<lambda>x. same_value_zero x v) s"

definition set_add :: "json list \<Rightarrow> json \<Rightarrow> json list" where
  "set_add s v = (if set_has s v then s else s @ [v])"

text \<open>\<open>new Set(v)\<close>: \<open>null\<close> gives the empty set, an array its elements, a string
  its characters; any other value is not iterable, a \<open>TypeError\<close>.\<close>

definition new_Set :: "json \<Rightarrow> exn + json list" where
  "new_Set v =
     (case v of
        JNull \<Rightarrow> Inr []
      | JArr xs \<Rightarrow> Inr (fold (\<lambda>x s. set_add s x) xs [])
      | JStr cs \<Rightarrow> Inr (fold (\<lambda>x s. set_add s x) (map (\<lambda>c. JStr [c]) cs) [])
      | _ \<Rightarrow> Inl (Error ''TypeError: object is not iterable''))"

text \<open>The body of the \<open>try\<close> of \<open>loadNotifiedAppointments\<close>: what it returns
  (\<open>None\<close> when control leaves the \<open>if\<close> without a \<open>return\<close>), or what it throws.\<close>

definition load_try :: "store_file \<Rightarrow> exn + json list option" where
  "load_try f =
     (case f of
        NoFile \<Rightarrow> Inr None
      | Unreadable msg \<Rightarrow> Inl (Error msg)
      | Text None \<Rightarrow> Inl (Error ''SyntaxError'')
      | Text (Some data) \<Rightarrow>
          (case new_Set data of Inl e \<Rightarrow> Inl e | Inr s \<Rightarrow> Inr (Some s)))"

definition loadNotifiedAppointments :: "store_file \<Rightarrow> event list \<Rightarrow> (json list \<times> event list) result" where
  "loadNotifiedAppointments f tr =
     (case load_try f of
        Inl error \<Rightarrow> Inr ([], tr @ [Log ''No previous notifications file found (first run)''])
      | Inr None \<Rightarrow> Inr ([], tr)
      | Inr (Some s) \<Rightarrow> Inr (s, tr))"

text \<open>\<open>saveNotifiedAppointments\<close> returns nothing; the model returns the file it
  leaves and the trace.\<close>

definition saveNotifiedAppointments :: "world \<Rightarrow> json list \<Rightarrow> event list \<Rightarrow> (store_file \<times> event list) result" where
  "saveNotifiedAppointments w notified tr =
     (case writeFileSync w tr notified of
        None \<Rightarrow> Inr (Text (Some (JArr notified)), tr @ [WriteFile notified None])
      | Some (msg, f') \<Rightarrow>
          Inr (f', tr @ [WriteFile notified (Some msg),
                         Err (''Error saving notifications: '' @ msg)]))"

section \<open>The notifier\<close>

definition createEmailTransporter :: "config \<Rightarrow> exn + smtp_config" where
  "createEmailTransporter cfg =
     (if \<not> truthy (auth_user (smtp cfg)) \<or> \<not> truthy (auth_pass (smtp cfg)) then
        Inl (Error ''Email credentials not configured. Set SMTP_USER and SMTP_PASS environment variables.'')
      else Inr (smtp cfg))"

text \<open>The message object \<open>sendEmail\<close> hands to \<open>transporter.sendMail\<close>.\<close>

definition mail_of :: "config \<Rightarrow> string \<Rightarrow> string \<Rightarrow> mail" where
  "mail_of cfg subject text =
     \<lparr>mail_from = auth_user (smtp cfg), mail_to = emailTo cfg,
      mail_subject = subject, mail_text = text,
      mail_html = concat (map (\<lambda>c. if c = CHR 0x0A then ''<br>'' else [c]) text)\<rparr>"

definition sendEmail :: "world \<Rightarrow> config \<Rightarrow> string \<Rightarrow> string \<Rightarrow> event list \<Rightarrow> (bool \<times> event list) result" where
  "sendEmail w cfg subject text tr =
     (case createEmailTransporter cfg of
        Inl e \<Rightarrow> Inl (e, tr)
      | Inr transporter \<Rightarrow>
          (case sendMail w tr (mail_of cfg subject text) of
             None \<Rightarrow>
               Inr (True, tr @ [SendMail (mail_of cfg subject text) None,
                                Log (''Email sent: '' @ subject)])
           | Some msg \<Rightarrow>
               Inr (False, tr @ [SendMail (mail_of cfg subject text) (Some msg),
                                 Err (''Error sending email: '' @ msg)])))"

section \<open>The availability client\<close>

definition checkLocation :: "world \<Rightarrow> string \<Rightarrow> event list \<Rightarrow> (slot list \<times> event list) result" where
  "checkLocation w locationId tr =
     (case axios_get w tr locationId of
        Response d \<Rightarrow>
          Inr ((case d of None \<Rightarrow> [] | Some slots \<Rightarrow> slots),
               tr @ [HttpGet locationId (Response d)])
      | Failure msg \<Rightarrow>
          Inr ([], tr @ [HttpGet locationId (Failure msg),
                         Err (''Error checking location '' @ locationId @ '': '' @ msg)]))"

section \<open>The orchestrator\<close>

text \<open>The local variables of \<open>checkAllLocations\<close> that the loops change, and the
  trace.\<close>

record state =
  notified :: "json list"
  newNotifications :: nat
  trace :: "event list"

text \<open>\<open>split\<close> never returns an empty array (\<open>js_split_not_Nil\<close> below), so
  the element \<open>[0]\<close> exists and \<open>hd\<close> is it.\<close>

definition appointmentDate :: "slot \<Rightarrow> string" where
  "appointmentDate slot = hd (js_split CHR ''T'' (startTimestamp slot))"

definition appointmentKey :: "location \<Rightarrow> slot \<Rightarrow> string" where
  "appointmentKey location slot = loc_id location @ ''_'' @ startTimestamp slot"

definition subject_of :: "location \<Rightarrow> string" where
  "subject_of location = ''Global Entry: Appointment Before '' @ targetDate location @ ''!''"

definition message_of :: "world \<Rightarrow> location \<Rightarrow> slot \<Rightarrow> event list \<Rightarrow> string" where
  "message_of w location slot tr =
     js_trim ([CHR 0x0A]
       @ ''Great news! A Global Entry appointment is available before your target date.''
       @ [CHR 0x0A, CHR 0x0A]
       @ ''Location: '' @ loc_name location @ [CHR 0x0A]
       @ ''Location ID: '' @ loc_id location @ [CHR 0x0A]
       @ ''Appointment: '' @ formatDate w (startTimestamp slot) @ [CHR 0x0A]
       @ ''Your Target: '' @ targetDate location @ [CHR 0x0A, CHR 0x0A]
       @ ''Book now: https://ttp.cbp.dhs.gov/'' @ [CHR 0x0A, CHR 0x0A]
       @ ''Found at: '' @ toLocaleString w tr @ [CHR 0x0A, CHR 0x0A]
       @ ''Don't wait - appointments fill up quickly!'' @ [CHR 0x0A]
       @ ''                    '')"

text \<open>The body of the loop over the slots of one location.\<close>

definition processSlot :: "world \<Rightarrow> config \<Rightarrow> location \<Rightarrow> slot \<Rightarrow> state \<Rightarrow> state result" where
  "processSlot w cfg location slot st =
     (let tr1 = trace st @ [Log (''    - '' @ formatDate w (startTimestamp slot))] in
      if appointmentDate slot < targetDate location then
        if \<not> set_has (notified st) (JStr (appointmentKey location slot)) then
          (let tr2 = tr1 @ [Log ''    BETTER APPOINTMENT FOUND!''] in
           case sendEmail w cfg (subject_of location) (message_of w location slot tr2) tr2 of
             Inl e \<Rightarrow> Inl e
           | Inr (sent, tr3) \<Rightarrow>
               if sent then
                 Inr \<lparr>notified = set_add (notified st) (JStr (appointmentKey location slot)),
                      newNotifications = newNotifications st + 1,
                      trace = tr3\<rparr>
               else Inr (st\<lparr>trace := tr3\<rparr>))
        else Inr (st\<lparr>trace := tr1\<rparr>)
      else Inr (st\<lparr>trace := tr1\<rparr>))"

fun slotLoop :: "world \<Rightarrow> config \<Rightarrow> location \<Rightarrow> slot list \<Rightarrow> state \<Rightarrow> state result" where
  "slotLoop w cfg location [] st = Inr st"
| "slotLoop w cfg location (slot # slots) st =
     (case processSlot w cfg location slot st of
        Inl e \<Rightarrow> Inl e
      | Inr st' \<Rightarrow> slotLoop w cfg location slots st')"

text \<open>The body of the loop over the locations; \<open>continue\<close> skips the delay.\<close>

definition processLocation :: "world \<Rightarrow> config \<Rightarrow> location \<Rightarrow> state \<Rightarrow> state result" where
  "processLocation w cfg location st =
     (let tr1 = trace st @ [Log (''Checking: '' @ loc_name location @ '' (ID: '' @ loc_id location @ '')''),
                            Log (''  Target date: '' @ targetDate location)] in
      case checkLocation w (loc_id location) tr1 of
        Inl e \<Rightarrow> Inl e
      | Inr (slots, tr2) \<Rightarrow>
          if length slots = 0 then
            Inr (st\<lparr>trace := tr2 @ [Log ''  No appointments available'', Log '''']\<rparr>)
          else
            (case slotLoop w cfg location slots
                    (st\<lparr>trace := tr2 @ [Log (''  Found '' @ js_String (length slots) @ '' appointment(s)'')]\<rparr>) of
               Inl e \<Rightarrow> Inl e
             | Inr st' \<Rightarrow> Inr (st'\<lparr>trace := trace st' @ [Log '''', Sleep 2000]\<rparr>)))"

fun locationLoop :: "world \<Rightarrow> config \<Rightarrow> location list \<Rightarrow> state \<Rightarrow> state result" where
  "locationLoop w cfg [] st = Inr st"
| "locationLoop w cfg (location # locs) st =
     (case processLocation w cfg location st of
        Inl e \<Rightarrow> Inl e
      | Inr st' \<Rightarrow> locationLoop w cfg locs st')"

text \<open>\<open>checkAllLocations\<close> returns nothing; the model returns the final values of
  its variables and the file it leaves.\<close>

definition checkAllLocations :: "world \<Rightarrow> config \<Rightarrow> event list \<Rightarrow> (state \<times> store_file) result" where
  "checkAllLocations w cfg tr =
     (let n = length (locations cfg);
          tr1 = tr @ [Log (replicate 60 CHR ''=''),
                      Log ''Global Entry Appointment Checker'',
                      Log (replicate 60 CHR ''=''),
                      Log (''Started: '' @ toISOString w tr),
                      Log (''Checking '' @ js_String n @ '' location(s)...''),
                      Log '''']
      in
      if n = 0 then
        Inl (ProcessExit 1,
             tr1 @ [Err ''No locations configured!'',
                    Log ''Set the LOCATIONS environment variable in GitHub Secrets.''])
      else
        (case loadNotifiedAppointments (notified_file w) tr1 of
           Inl e \<Rightarrow> Inl e
         | Inr (loaded, tr2) \<Rightarrow>
             (case locationLoop w cfg (locations cfg)
                     \<lparr>notified = loaded, newNotifications = 0, trace = tr2\<rparr> of
                Inl e \<Rightarrow> Inl e
              | Inr st \<Rightarrow>
                  (case saveNotifiedAppointments w (notified st) (trace st) of
                     Inl e \<Rightarrow> Inl e
                   | Inr (f, tr3) \<Rightarrow>
                       Inr (st\<lparr>trace := tr3 @
                              [Log (replicate 60 CHR ''=''),
                               Log ''Summary'',
                               Log (replicate 60 CHR ''=''),
                               Log (''Total locations checked: '' @ js_String n),
                               Log (''New notifications sent: '' @ js_String (newNotifications st)),
                               Log (''Total appointments tracked: '' @ js_String (length (notified st))),
                               Log (''Completed: '' @ toISOString w tr3),
                               Log (replicate 60 CHR ''='')]\<rparr>, f)))))"

text \<open>
  One run of the script: the module is loaded (\<open>CONFIG\<close>), \<open>checkAllLocations\<close> is
  called and its rejection handled. The process ends with code 0 when the call returns,
  with the code of \<open>process.exit\<close> otherwise; a thrown error is logged by the handler,
  which exits with 1. The handler calls \<open>console.error('Fatal error:', error)\<close>,
  and the console prints an error object as its stack: the line
  \<open>Error: message\<close> followed by the stack frames.
\<close>

record run =
  exit_code :: nat
  final_trace :: "event list"
  final_file :: store_file

definition main :: "world \<Rightarrow> run" where
  "main w =
     (let (cfg, tr) = CONFIG w in
      case checkAllLocations w cfg tr of
        Inr (st, f) \<Rightarrow> \<lparr>exit_code = 0, final_trace = trace st, final_file = f\<rparr>
      | Inl (ProcessExit code, tr') \<Rightarrow>
          \<lparr>exit_code = code, final_trace = tr', final_file = notified_file w\<rparr>
      | Inl (Error msg, tr') \<Rightarrow>
          \<lparr>exit_code = 1,
           final_trace = tr' @ [Err (''Fatal error: Error: '' @ msg @ stack_frames w tr')],
           final_file = notified_file w\<rparr>)"

text \<open>
  How a step of the loops that returns relates the state before to the state after:
  the trace and the set of notified keys are extended, nothing is written to the store
  file, and while the mail credentials are missing no mail is sent, no key added and
  no better appointment announced.
\<close>

definition grows :: "config \<Rightarrow> state \<Rightarrow> state \<Rightarrow> bool" where
  "grows cfg st st' =
     (\<exists>new added.
        trace st' = trace st @ new \<and> notified st' = notified st @ added
        \<and> (\<forall>e \<in> set new. \<not> is_WriteFile e)
        \<and> (\<not> truthy (auth_user (smtp cfg)) \<or> \<not> truthy (auth_pass (smtp cfg)) \<longrightarrow>
             added = [] \<and> newNotifications st' = newNotifications st
             \<and> (\<forall>e \<in> set new. \<not> is_SendMail e \<and> e \<noteq> Log ''    BETTER APPOINTMENT FOUND!'')))"

section \<open>Example worlds\<close>

text \<open>One location with a target date of 2025-04-01, a slot on 2025-03-15, no store
  file yet, and a relay and a file system that accept everything.\<close>

definition example_world :: world where
  "example_world =
     \<lparr>SMTP_HOST = None, SMTP_PORT = None,
      SMTP_USER = Some ''me@example.com'', SMTP_PASS = Some ''secret'',
      EMAIL_TO = None,
      LOCATIONS = Some ''5140:JFK:2025-04-01'',
      notified_file = NoFile,
      axios_get = (\<lambda>tr locationId. Response (Some [\<lparr>startTimestamp = ''2025-03-15T09:00:00''\<rparr>])),
      sendMail = (\<lambda>tr m. None),
      writeFileSync = (\<lambda>tr content. None),
      formatDate = (\<lambda>isoDate. isoDate),
      toISOString = (\<lambda>tr. ''2025-01-01T00:00:00.000Z''),
      toLocaleString = (\<lambda>tr. ''1/1/2025, 12:00:00 AM''),
      stack_frames = (\<lambda>tr. [CHR 0x0A] @ ''    at createEmailTransporter (check-appointments.js:95:15)'')\<rparr>"

definition example_location :: location where
  "example_location = \<lparr>loc_id = ''5140'', loc_name = ''JFK'', targetDate = ''2025-04-01''\<rparr>"

definition example_slot :: slot where
  "example_slot = \<lparr>startTimestamp = ''2025-03-15T09:00:00''\<rparr>"

definition example_state :: state where
  "example_state = \<lparr>notified = [], newNotifications = 0, trace = []\<rparr>"

section \<open>Strings: split and trim\<close>

lemma js_split_not_Nil: "js_split c s \<noteq> []"
  by (induction s) (auto split: list.splits)

lemma length_js_split: "length (js_split c s) = Suc (count_list s c)"
  by (induction s) (auto split: list.splits simp: js_split_not_Nil)

lemma js_split_no_sep: "c \<notin> set a \<Longrightarrow> js_split c a = [a]"
  by (induction a) auto

lemma js_split_append: "c \<notin> set a \<Longrightarrow> js_split c (a @ c # b) = a # js_split c b"
  by (induction a) auto

lemma hd_js_split: "hd (js_split c s) = takeWhile (\<lambda>x. x \<noteq> c) s"
  by (induction s) (auto split: list.splits simp: js_split_not_Nil)

lemma count_list_dropWhile: "\<not> P c \<Longrightarrow> count_list (dropWhile P xs) c = count_list xs c"
  by (induction xs) auto

lemma count_list_reversed: "count_list (rev xs) c = count_list xs c"
  by (induction xs) auto

lemma colon_not_whitespace: "\<not> is_whitespace CHR '':''"
  by (simp add: is_whitespace_def)

lemma count_colons_js_trim: "count_list (js_trim e) CHR '':'' = count_list e CHR '':''"
  by (simp add: js_trim_def count_list_reversed count_list_dropWhile colon_not_whitespace)

section \<open>The location registry\<close>

lemma parseEntry_cases:
  "parseEntry e =
     (if count_list e CHR '':'' = 2
      then (Some \<lparr>loc_id = js_split CHR '':'' (js_trim e) ! 0,
                  loc_name = js_split CHR '':'' (js_trim e) ! 1,
                  targetDate = js_split CHR '':'' (js_trim e) ! 2\<rparr>, [])
      else (None, [Err (''Invalid location format: '' @ e)]))"
  by (simp add: parseEntry_def Let_def length_js_split count_colons_js_trim)

lemma map_filter_parseEntry:
  "List.map_filter fst (map parseEntry es) =
     map (\<lambda>e. \<lparr>loc_id = js_split CHR '':'' (js_trim e) ! 0,
                loc_name = js_split CHR '':'' (js_trim e) ! 1,
                targetDate = js_split CHR '':'' (js_trim e) ! 2\<rparr>)
         (filter (\<lambda>e. count_list e CHR '':'' = 2) es)"
  by (induction es) (simp_all add: List.map_filter_simps parseEntry_cases)

lemma concat_snd_parseEntry:
  "concat (map (snd \<circ> parseEntry) es) =
     map (\<lambda>e. Err (''Invalid location format: '' @ e))
         (filter (\<lambda>e. count_list e CHR '':'' \<noteq> 2) es)"
  by (induction es) (simp_all add: parseEntry_cases)

lemma length_filter_both: "length (filter P xs) + length (filter (\<lambda>x. \<not> P x) xs) = length xs"
  by (induction xs) auto

text \<open>
  C3. An entry is one of the comma-separated pieces of the configuration string; it is
  well formed when it has exactly three colon-separated fields, that is, exactly two
  colons. For a non-empty string, \<open>parseLocations\<close> returns one record per well-formed
  entry, in order, and logs one error per malformed entry and nothing else; the k
  records and the m errors add up to the number of entries. The empty string gives the
  empty list and one logged error, and the function returns; an unset or empty
  variable is read as the empty string, so the configuration then has no location. The three fields of a well-formed entry are passed through as they
  are, whatever they contain: no date format and no uniqueness of the id is checked.
\<close>

theorem parseLocations_counts:
  "parseLocations [] =
     ([], [Err ''ERROR: LOCATIONS environment variable not set'',
           Log ''Format: \"locationId:name:targetDate,locationId:name:targetDate\"'',
           Log ''Example: \"5140:JFK Terminal 4:2025-04-01,5183:Newark:2025-04-01\"''])
   \<and> (s \<noteq> [] \<longrightarrow>
        fst (parseLocations s) =
          map (\<lambda>e. \<lparr>loc_id = js_split CHR '':'' (js_trim e) ! 0,
                     loc_name = js_split CHR '':'' (js_trim e) ! 1,
                     targetDate = js_split CHR '':'' (js_trim e) ! 2\<rparr>)
              (filter (\<lambda>e. count_list e CHR '':'' = 2) (js_split CHR '','' s))
      \<and> snd (parseLocations s) =
          map (\<lambda>e. Err (''Invalid location format: '' @ e))
              (filter (\<lambda>e. count_list e CHR '':'' \<noteq> 2) (js_split CHR '','' s))
      \<and> length (fst (parseLocations s)) + length (snd (parseLocations s))
          = Suc (count_list s CHR '',''))
   \<and> (CHR '':'' \<notin> set i \<union> set n \<union> set d \<and> js_trim e = i @ '':'' @ n @ '':'' @ d \<longrightarrow>
        parseEntry e = (Some \<lparr>loc_id = i, loc_name = n, targetDate = d\<rparr>, []))
   \<and> (\<not> truthy (LOCATIONS w) \<longrightarrow> locations (fst (CONFIG w)) = [])"
proof (intro conjI impI)
  show "parseLocations [] =
     ([], [Err ''ERROR: LOCATIONS environment variable not set'',
           Log ''Format: \"locationId:name:targetDate,locationId:name:targetDate\"'',
           Log ''Example: \"5140:JFK Terminal 4:2025-04-01,5183:Newark:2025-04-01\"''])"
    by (simp add: parseLocations_def)
next
  assume "s \<noteq> []"
  then show "fst (parseLocations s) =
          map (\<lambda>e. \<lparr>loc_id = js_split CHR '':'' (js_trim e) ! 0,
                     loc_name = js_split CHR '':'' (js_trim e) ! 1,
                     targetDate = js_split CHR '':'' (js_trim e) ! 2\<rparr>)
              (filter (\<lambda>e. count_list e CHR '':'' = 2) (js_split CHR '','' s))"
    by (simp add: parseLocations_def Let_def map_filter_parseEntry)
next
  assume "s \<noteq> []"
  then show "snd (parseLocations s) =
          map (\<lambda>e. Err (''Invalid location format: '' @ e))
              (filter (\<lambda>e. count_list e CHR '':'' \<noteq> 2) (js_split CHR '','' s))"
    by (simp add: parseLocations_def Let_def concat_snd_parseEntry)
next
  assume "s \<noteq> []"
  then show "length (fst (parseLocations s)) + length (snd (parseLocations s))
          = Suc (count_list s CHR '','')"
    by (simp add: parseLocations_def Let_def map_filter_parseEntry concat_snd_parseEntry
        length_filter_both length_js_split)
next
  assume a: "CHR '':'' \<notin> set i \<union> set n \<union> set d \<and> js_trim e = i @ '':'' @ n @ '':'' @ d"
  then have "js_split CHR '':'' (js_trim e) = [i, n, d]"
    by (simp add: js_split_append js_split_no_sep)
  then show "parseEntry e = (Some \<lparr>loc_id = i, loc_name = n, targetDate = d\<rparr>, [])"
    by (simp add: parseEntry_def)
next
  assume "\<not> truthy (LOCATIONS w)"
  then have "or_default (LOCATIONS w) [] = []"
    by (simp add: truthy_def or_default_def split: option.splits)
  then show "locations (fst (CONFIG w)) = []"
    by (simp add: CONFIG_def parseLocations_def)
qed

theorem parseLocations_counts_witness:
  "fst (parseLocations ''5140:JFK Terminal 4:2025-04-01,bad, 5140:Newark:not a date ,a:b:c:d'') =
     [\<lparr>loc_id = ''5140'', loc_name = ''JFK Terminal 4'', targetDate = ''2025-04-01''\<rparr>,
      \<lparr>loc_id = ''5140'', loc_name = ''Newark'', targetDate = ''not a date''\<rparr>]
   \<and> snd (parseLocations ''5140:JFK Terminal 4:2025-04-01,bad, 5140:Newark:not a date ,a:b:c:d'') =
     [Err ''Invalid location format: bad'', Err ''Invalid location format: a:b:c:d'']
   \<and> parseEntry '' 5140:Newark:not a date '' =
     (Some \<lparr>loc_id = ''5140'', loc_name = ''Newark'', targetDate = ''not a date''\<rparr>, [])
   \<and> locations (fst (CONFIG (example_world\<lparr>LOCATIONS := None\<rparr>))) = []"
  using parseLocations_counts
    [where s = "''5140:JFK Terminal 4:2025-04-01,bad, 5140:Newark:not a date ,a:b:c:d''"
       and i = "''5140''" and n = "''Newark''" and d = "''not a date''"
       and e = "'' 5140:Newark:not a date ''" and w = "example_world\<lparr>LOCATIONS := None\<rparr>"]
  by (simp add: js_trim_def is_whitespace_def truthy_def)

section \<open>Notification keys\<close>

lemma same_value_zero_eq: "same_value_zero x v \<Longrightarrow> x = v"
  by (cases x) auto

lemma same_value_zero_JStr: "same_value_zero x (JStr k) = (x = JStr k)"
  by (cases x) auto

lemma set_has_JStr: "set_has s (JStr k) = (JStr k \<in> set s)"
  by (auto simp: set_has_def list_ex_iff same_value_zero_JStr)

lemma set_has_member: "set_has s v \<Longrightarrow> v \<in> set s"
  by (auto simp: set_has_def list_ex_iff dest: same_value_zero_eq)

lemma set_set_add: "set (set_add s v) = insert v (set s)"
  by (auto simp: set_add_def dest: set_has_member)

lemma set_add_JStr: "set_add s (JStr k) = (if JStr k \<in> set s then s else s @ [JStr k])"
  by (simp add: set_add_def set_has_JStr)

lemma set_fold_set_add: "set (fold (\<lambda>x s. set_add s x) xs s) = set s \<union> set xs"
  by (induction xs arbitrary: s) (auto simp: set_set_add)

lemma fold_set_add_fresh:
  "distinct ks \<Longrightarrow> JStr ` set ks \<inter> set s = {} \<Longrightarrow>
   fold (\<lambda>x s. set_add s x) (map JStr ks) s = s @ map JStr ks"
proof (induction ks arbitrary: s)
  case Nil
  then show ?case by simp
next
  case (Cons k ks)
  from Cons.prems have fresh: "JStr k \<notin> set s" by auto
  have "JStr ` set ks \<inter> set (s @ [JStr k]) = {}"
    using Cons.prems by auto
  with Cons.IH [of "s @ [JStr k]"] Cons.prems fresh show ?case
    by (simp add: set_add_JStr)
qed

lemma underscore_split_left:
  "c \<notin> set a \<Longrightarrow> c \<notin> set a' \<Longrightarrow> a @ c # b = a' @ c # b' \<Longrightarrow> a = a' \<and> b = b'"
proof (induction a arbitrary: a')
  case Nil
  then show ?case by (cases a') auto
next
  case (Cons x a)
  then show ?case by (cases a') auto
qed

lemma underscore_split_right:
  assumes "c \<notin> set b" "c \<notin> set b'" "a @ c # b = a' @ c # b'"
  shows "a = a' \<and> b = b'"
proof -
  from assms(3) have "rev (a @ c # b) = rev (a' @ c # b')" by simp
  then have "rev b @ c # rev a = rev b' @ c # rev a'" by simp
  with assms(1,2) have "rev b = rev b' \<and> rev a = rev a'"
    by (intro underscore_split_left) auto
  then show ?thesis by simp
qed

lemma appointmentKey_inj:
  assumes "CHR ''_'' \<notin> set (loc_id l1) \<union> set (loc_id l2)
         \<or> CHR ''_'' \<notin> set (startTimestamp s1) \<union> set (startTimestamp s2)"
    and "appointmentKey l1 s1 = appointmentKey l2 s2"
  shows "loc_id l1 = loc_id l2 \<and> startTimestamp s1 = startTimestamp s2"
  using assms underscore_split_left [of "CHR ''_''" "loc_id l1" "loc_id l2" "startTimestamp s1" "startTimestamp s2"]
    underscore_split_right [of "CHR ''_''" "startTimestamp s1" "startTimestamp s2" "loc_id l1" "loc_id l2"]
  by (auto simp: appointmentKey_def)

text \<open>
  C2. The key of a slot at a location is computed from the location's id and the
  slot's start timestamp alone: equal inputs give equal keys. The start timestamp of a
  slot is an ISO-8601 datetime, which contains no underscore. For timestamps without
  an underscore, whatever the ids are (and also for ids without an underscore, whatever
  the timestamps are), different inputs have different keys, and n calls with pairwise
  different inputs, each adding its key to a set that starts empty, leave a set of
  size n. Adding a key that the set already holds leaves the set as it is.
\<close>

theorem appointmentKey_deterministic_injective:
  "(loc_id l1 = loc_id l2 \<and> startTimestamp s1 = startTimestamp s2 \<longrightarrow>
      appointmentKey l1 s1 = appointmentKey l2 s2)
   \<and> ((CHR ''_'' \<notin> set (loc_id l1) \<union> set (loc_id l2)
        \<or> CHR ''_'' \<notin> set (startTimestamp s1) \<union> set (startTimestamp s2))
       \<and> appointmentKey l1 s1 = appointmentKey l2 s2 \<longrightarrow>
      loc_id l1 = loc_id l2 \<and> startTimestamp s1 = startTimestamp s2)
   \<and> (distinct (map (\<lambda>p. (loc_id (fst p), startTimestamp (snd p))) calls)
       \<and> ((\<forall>p \<in> set calls. CHR ''_'' \<notin> set (loc_id (fst p)))
          \<or> (\<forall>p \<in> set calls. CHR ''_'' \<notin> set (startTimestamp (snd p)))) \<longrightarrow>
      length (fold (\<lambda>p s. set_add s (JStr (appointmentKey (fst p) (snd p)))) calls [])
        = length calls)
   \<and> (JStr k \<in> set s \<longrightarrow> set_add s (JStr k) = s)"
proof -
  have same: "loc_id l1 = loc_id l2 \<and> startTimestamp s1 = startTimestamp s2 \<longrightarrow>
      appointmentKey l1 s1 = appointmentKey l2 s2"
    by (simp add: appointmentKey_def)
  have inj: "(CHR ''_'' \<notin> set (loc_id l1) \<union> set (loc_id l2)
        \<or> CHR ''_'' \<notin> set (startTimestamp s1) \<union> set (startTimestamp s2))
       \<and> appointmentKey l1 s1 = appointmentKey l2 s2 \<longrightarrow>
      loc_id l1 = loc_id l2 \<and> startTimestamp s1 = startTimestamp s2"
    using appointmentKey_inj by blast
  have size: "distinct (map (\<lambda>p. (loc_id (fst p), startTimestamp (snd p))) calls)
       \<and> ((\<forall>p \<in> set calls. CHR ''_'' \<notin> set (loc_id (fst p)))
          \<or> (\<forall>p \<in> set calls. CHR ''_'' \<notin> set (startTimestamp (snd p)))) \<longrightarrow>
      length (fold (\<lambda>p s. set_add s (JStr (appointmentKey (fst p) (snd p)))) calls [])
        = length calls"
  proof
    assume a: "distinct (map (\<lambda>p. (loc_id (fst p), startTimestamp (snd p))) calls)
       \<and> ((\<forall>p \<in> set calls. CHR ''_'' \<notin> set (loc_id (fst p)))
          \<or> (\<forall>p \<in> set calls. CHR ''_'' \<notin> set (startTimestamp (snd p))))"
    let ?key = "\<lambda>p. appointmentKey (fst p) (snd p)"
    have "inj_on ?key (set calls)"
    proof (rule inj_onI)
      fix p q assume pq: "p \<in> set calls" "q \<in> set calls" "?key p = ?key q"
      with a have "(loc_id (fst p), startTimestamp (snd p)) = (loc_id (fst q), startTimestamp (snd q))"
        using appointmentKey_inj [of "fst p" "fst q" "snd p" "snd q"]
        by auto
      moreover from a have "inj_on (\<lambda>p. (loc_id (fst p), startTimestamp (snd p))) (set calls)"
        by (simp add: distinct_map)
      ultimately show "p = q" using pq by (auto dest: inj_onD)
    qed
    moreover from a have "distinct calls" by (simp add: distinct_map)
    ultimately have d: "distinct (map ?key calls)"
      by (simp add: distinct_map)
    have "fold (\<lambda>p s. set_add s (JStr (?key p))) calls []
        = fold (\<lambda>x s. set_add s x) (map JStr (map ?key calls)) []"
      by (simp add: fold_map comp_def)
    also have "\<dots> = map JStr (map ?key calls)"
      using fold_set_add_fresh [OF d, of "[]"] by simp
    finally show "length (fold (\<lambda>p s. set_add s (JStr (?key p))) calls []) = length calls"
      by simp
  qed
  have again: "JStr k \<in> set s \<longrightarrow> set_add s (JStr k) = s"
    by (simp add: set_add_JStr)
  from same inj size again show ?thesis by (intro conjI)
qed

theorem appointmentKey_deterministic_injective_witness:
  "CHR ''_'' \<notin> set (startTimestamp example_slot)
   \<and> CHR ''_'' \<notin> set (startTimestamp \<lparr>startTimestamp = ''2025-03-16T09:00:00''\<rparr>)
   \<and> appointmentKey example_location example_slot
     = appointmentKey (example_location\<lparr>loc_name := ''Kennedy''\<rparr>) example_slot
   \<and> appointmentKey example_location example_slot
     \<noteq> appointmentKey (example_location\<lparr>loc_id := ''5183''\<rparr>) example_slot
   \<and> length (fold (\<lambda>p s. set_add s (JStr (appointmentKey (fst p) (snd p))))
        [(example_location, example_slot),
         (example_location, \<lparr>startTimestamp = ''2025-03-16T09:00:00''\<rparr>),
         (example_location\<lparr>loc_id := ''5183''\<rparr>, example_slot)] []) = 3
   \<and> set_add [JStr ''5140_2025-03-15T09:00:00''] (JStr ''5140_2025-03-15T09:00:00'')
     = [JStr ''5140_2025-03-15T09:00:00'']"
  using appointmentKey_deterministic_injective
    [where ?l1.0 = example_location and ?l2.0 = "example_location\<lparr>loc_name := ''Kennedy''\<rparr>"
       and ?s1.0 = example_slot and ?s2.0 = example_slot
       and calls = "[(example_location, example_slot),
          (example_location, \<lparr>startTimestamp = ''2025-03-16T09:00:00''\<rparr>),
          (example_location\<lparr>loc_id := ''5183''\<rparr>, example_slot)]"
       and k = "''5140_2025-03-15T09:00:00''" and s = "[JStr ''5140_2025-03-15T09:00:00'']"]
    appointmentKey_deterministic_injective
    [where ?l1.0 = example_location and ?l2.0 = "example_location\<lparr>loc_id := ''5183''\<rparr>"
       and ?s1.0 = example_slot and ?s2.0 = example_slot]
  by (simp add: example_location_def example_slot_def appointmentKey_def set_add_JStr)

section \<open>The slot loop\<close>

lemma sendEmail_no_credentials:
  "\<not> truthy (auth_user (smtp cfg)) \<or> \<not> truthy (auth_pass (smtp cfg)) \<Longrightarrow>
   sendEmail w cfg subject body tr =
     Inl (Error ''Email credentials not configured. Set SMTP_USER and SMTP_PASS environment variables.'', tr)"
  by (simp add: sendEmail_def createEmailTransporter_def)

lemma sendEmail_credentials:
  "truthy (auth_user (smtp cfg)) \<Longrightarrow> truthy (auth_pass (smtp cfg)) \<Longrightarrow>
   sendEmail w cfg subject body tr =
     (case sendMail w tr (mail_of cfg subject body) of
        None \<Rightarrow> Inr (True, tr @ [SendMail (mail_of cfg subject body) None,
                                 Log (''Email sent: '' @ subject)])
      | Some msg \<Rightarrow> Inr (False, tr @ [SendMail (mail_of cfg subject body) (Some msg),
                                      Err (''Error sending email: '' @ msg)]))"
  by (simp add: sendEmail_def createEmailTransporter_def)

lemma processSlot_not_qualifying:
  "\<not> (appointmentDate slot < targetDate loc \<and> JStr (appointmentKey loc slot) \<notin> set (notified st)) \<Longrightarrow>
   processSlot w cfg loc slot st =
     Inr (st\<lparr>trace := trace st @ [Log (''    - '' @ formatDate w (startTimestamp slot))]\<rparr>)"
  by (auto simp: processSlot_def Let_def set_has_JStr)

lemma processSlot_qualifying:
  "appointmentDate slot < targetDate loc \<Longrightarrow> JStr (appointmentKey loc slot) \<notin> set (notified st) \<Longrightarrow>
   processSlot w cfg loc slot st =
     (case sendEmail w cfg (subject_of loc)
             (message_of w loc slot
                (trace st @ [Log (''    - '' @ formatDate w (startTimestamp slot)),
                             Log ''    BETTER APPOINTMENT FOUND!'']))
             (trace st @ [Log (''    - '' @ formatDate w (startTimestamp slot)),
                          Log ''    BETTER APPOINTMENT FOUND!'']) of
        Inl e \<Rightarrow> Inl e
      | Inr (sent, tr3) \<Rightarrow>
          if sent then
            Inr \<lparr>notified = notified st @ [JStr (appointmentKey loc slot)],
                 newNotifications = newNotifications st + 1,
                 trace = tr3\<rparr>
          else Inr (st\<lparr>trace := tr3\<rparr>))"
  by (simp add: processSlot_def Let_def set_has_JStr set_add_JStr split: sum.splits prod.splits)

text \<open>
  C1. A slot qualifies when its appointment date (the date part of \<open>startTimestamp\<close>)
  is strictly below the location's target date in the lexicographic order of strings
  and its key is not in the set of notified keys. A slot that does not qualify is
  logged and nothing else happens: no mail, the set and the counter unchanged; so a
  slot on or after the target date never qualifies, whatever the set holds, and a
  notified key never qualifies again. For a slot that qualifies \<open>sendEmail\<close> is
  called: either building the transporter throws before any mail, or exactly one
  mail is handed to the relay, and the key is added and the counter incremented exactly
  when the relay accepts it.
\<close>

theorem processSlot_sends_iff_qualifies:
  "(\<not> (appointmentDate slot < targetDate loc \<and> JStr (appointmentKey loc slot) \<notin> set (notified st)) \<longrightarrow>
      processSlot w cfg loc slot st =
        Inr (st\<lparr>trace := trace st @ [Log (''    - '' @ formatDate w (startTimestamp slot))]\<rparr>))
   \<and> (appointmentDate slot < targetDate loc \<and> JStr (appointmentKey loc slot) \<notin> set (notified st) \<longrightarrow>
      (case processSlot w cfg loc slot st of
         Inl (e, tr) \<Rightarrow>
           createEmailTransporter cfg = Inl e
           \<and> tr = trace st @ [Log (''    - '' @ formatDate w (startTimestamp slot)),
                             Log ''    BETTER APPOINTMENT FOUND!'']
       | Inr st' \<Rightarrow>
           (\<exists>m r. trace st' = trace st @
                      [Log (''    - '' @ formatDate w (startTimestamp slot)),
                       Log ''    BETTER APPOINTMENT FOUND!'',
                       SendMail m r,
                       (case r of None \<Rightarrow> Log (''Email sent: '' @ subject_of loc)
                        | Some msg \<Rightarrow> Err (''Error sending email: '' @ msg))]
                \<and> m = mail_of cfg (subject_of loc)
                      (message_of w loc slot
                         (trace st @ [Log (''    - '' @ formatDate w (startTimestamp slot)),
                                      Log ''    BETTER APPOINTMENT FOUND!'']))
                \<and> r = sendMail w
                      (trace st @ [Log (''    - '' @ formatDate w (startTimestamp slot)),
                                   Log ''    BETTER APPOINTMENT FOUND!'']) m
                \<and> notified st' =
                    (if r = None then notified st @ [JStr (appointmentKey loc slot)]
                     else notified st)
                \<and> newNotifications st' =
                    (if r = None then newNotifications st + 1 else newNotifications st))))"
proof -
  have no: "\<not> (appointmentDate slot < targetDate loc \<and> JStr (appointmentKey loc slot) \<notin> set (notified st)) \<longrightarrow>
      processSlot w cfg loc slot st =
        Inr (st\<lparr>trace := trace st @ [Log (''    - '' @ formatDate w (startTimestamp slot))]\<rparr>)"
    using processSlot_not_qualifying by blast
  have yes: "appointmentDate slot < targetDate loc \<and> JStr (appointmentKey loc slot) \<notin> set (notified st) \<longrightarrow>
      (case processSlot w cfg loc slot st of
         Inl (e, tr) \<Rightarrow>
           createEmailTransporter cfg = Inl e
           \<and> tr = trace st @ [Log (''    - '' @ formatDate w (startTimestamp slot)),
                             Log ''    BETTER APPOINTMENT FOUND!'']
       | Inr st' \<Rightarrow>
           (\<exists>m r. trace st' = trace st @
                      [Log (''    - '' @ formatDate w (startTimestamp slot)),
                       Log ''    BETTER APPOINTMENT FOUND!'',
                       SendMail m r,
                       (case r of None \<Rightarrow> Log (''Email sent: '' @ subject_of loc)
                        | Some msg \<Rightarrow> Err (''Error sending email: '' @ msg))]
                \<and> m = mail_of cfg (subject_of loc)
                      (message_of w loc slot
                         (trace st @ [Log (''    - '' @ formatDate w (startTimestamp slot)),
                                      Log ''    BETTER APPOINTMENT FOUND!'']))
                \<and> r = sendMail w
                      (trace st @ [Log (''    - '' @ formatDate w (startTimestamp slot)),
                                   Log ''    BETTER APPOINTMENT FOUND!'']) m
                \<and> notified st' =
                    (if r = None then notified st @ [JStr (appointmentKey loc slot)]
                     else notified st)
                \<and> newNotifications st' =
                    (if r = None then newNotifications st + 1 else newNotifications st)))"
  proof
    assume q: "appointmentDate slot < targetDate loc \<and> JStr (appointmentKey loc slot) \<notin> set (notified st)"
    show "case processSlot w cfg loc slot st of
         Inl (e, tr) \<Rightarrow>
           createEmailTransporter cfg = Inl e
           \<and> tr = trace st @ [Log (''    - '' @ formatDate w (startTimestamp slot)),
                             Log ''    BETTER APPOINTMENT FOUND!'']
       | Inr st' \<Rightarrow>
           (\<exists>m r. trace st' = trace st @
                      [Log (''    - '' @ formatDate w (startTimestamp slot)),
                       Log ''    BETTER APPOINTMENT FOUND!'',
                       SendMail m r,
                       (case r of None \<Rightarrow> Log (''Email sent: '' @ subject_of loc)
                        | Some msg \<Rightarrow> Err (''Error sending email: '' @ msg))]
                \<and> m = mail_of cfg (subject_of loc)
                      (message_of w loc slot
                         (trace st @ [Log (''    - '' @ formatDate w (startTimestamp slot)),
                                      Log ''    BETTER APPOINTMENT FOUND!'']))
                \<and> r = sendMail w
                      (trace st @ [Log (''    - '' @ formatDate w (startTimestamp slot)),
                                   Log ''    BETTER APPOINTMENT FOUND!'']) m
                \<and> notified st' =
                    (if r = None then notified st @ [JStr (appointmentKey loc slot)]
                     else notified st)
                \<and> newNotifications st' =
                    (if r = None then newNotifications st + 1 else newNotifications st))"
    proof (cases "truthy (auth_user (smtp cfg)) \<and> truthy (auth_pass (smtp cfg))")
      case False
      with q show ?thesis
        by (simp add: processSlot_qualifying sendEmail_no_credentials createEmailTransporter_def)
    next
      case True
      with q show ?thesis
        by (cases "sendMail w (trace st @ [Log (''    - '' @ formatDate w (startTimestamp slot)),
                             Log ''    BETTER APPOINTMENT FOUND!''])
                     (mail_of cfg (subject_of loc) (message_of w loc slot
                (trace st @ [Log (''    - '' @ formatDate w (startTimestamp slot)),
                             Log ''    BETTER APPOINTMENT FOUND!''])))")
           (simp_all add: processSlot_qualifying sendEmail_credentials)
    qed
  qed
  from no yes show ?thesis by (intro conjI)
qed


theorem processSlot_sends_iff_qualifies_witness:
  "appointmentDate example_slot < targetDate example_location
   \<and> processSlot example_world (fst (CONFIG example_world)) example_location example_slot example_state
     = Inr \<lparr>notified = [JStr ''5140_2025-03-15T09:00:00''], newNotifications = 1,
            trace = [Log ''    - 2025-03-15T09:00:00'', Log ''    BETTER APPOINTMENT FOUND!'',
                     SendMail (mail_of (fst (CONFIG example_world)) (subject_of example_location)
                                (message_of example_world example_location example_slot
                                   [Log ''    - 2025-03-15T09:00:00'',
                                    Log ''    BETTER APPOINTMENT FOUND!''])) None,
                     Log ''Email sent: Global Entry: Appointment Before 2025-04-01!'']\<rparr>
   \<and> processSlot example_world (fst (CONFIG example_world)) example_location example_slot
        (example_state\<lparr>notified := [JStr ''5140_2025-03-15T09:00:00'']\<rparr>)
     = Inr \<lparr>notified = [JStr ''5140_2025-03-15T09:00:00''], newNotifications = 0,
            trace = [Log ''    - 2025-03-15T09:00:00'']\<rparr>
   \<and> \<not> appointmentDate \<lparr>startTimestamp = ''2025-05-01T09:00:00''\<rparr> < targetDate example_location
   \<and> processSlot example_world (fst (CONFIG example_world)) example_location
        \<lparr>startTimestamp = ''2025-05-01T09:00:00''\<rparr> example_state
     = Inr \<lparr>notified = [], newNotifications = 0, trace = [Log ''    - 2025-05-01T09:00:00'']\<rparr>"
  using processSlot_sends_iff_qualifies
      [of example_slot example_location example_state example_world "fst (CONFIG example_world)"]
    processSlot_sends_iff_qualifies
      [of example_slot example_location "example_state\<lparr>notified := [JStr ''5140_2025-03-15T09:00:00'']\<rparr>"
          example_world "fst (CONFIG example_world)"]
    processSlot_sends_iff_qualifies
      [of "\<lparr>startTimestamp = ''2025-05-01T09:00:00''\<rparr>" example_location example_state
          example_world "fst (CONFIG example_world)"]
  by (simp add: example_slot_def example_location_def example_state_def example_world_def
      appointmentDate_def appointmentKey_def subject_of_def CONFIG_def parseLocations_def
      parseEntry_def js_trim_def is_whitespace_def or_default_def js_or_def truthy_def
      List.map_filter_simps processSlot_def sendEmail_def createEmailTransporter_def
      set_has_JStr set_add_JStr Let_def)

text \<open>
  C10. The appointment date compared with the target date is the part of
  \<open>startTimestamp\<close> before its first \<open>T\<close>; for a timestamp without a \<open>T\<close>
  it is the whole timestamp. \<open>processSlot\<close> decides on exactly this comparison (and on
  the key being new).
\<close>

theorem appointmentDate_is_prefix_before_T:
  "appointmentDate slot = takeWhile (\<lambda>c. c \<noteq> CHR ''T'') (startTimestamp slot)
   \<and> (CHR ''T'' \<notin> set (startTimestamp slot) \<longrightarrow> appointmentDate slot = startTimestamp slot)
   \<and> processSlot w cfg loc slot st =
       (if takeWhile (\<lambda>c. c \<noteq> CHR ''T'') (startTimestamp slot) < targetDate loc
           \<and> JStr (appointmentKey loc slot) \<notin> set (notified st)
        then
          (case sendEmail w cfg (subject_of loc)
                  (message_of w loc slot
                     (trace st @ [Log (''    - '' @ formatDate w (startTimestamp slot)),
                                  Log ''    BETTER APPOINTMENT FOUND!'']))
                  (trace st @ [Log (''    - '' @ formatDate w (startTimestamp slot)),
                               Log ''    BETTER APPOINTMENT FOUND!'']) of
             Inl e \<Rightarrow> Inl e
           | Inr (sent, tr3) \<Rightarrow>
               if sent then
                 Inr \<lparr>notified = notified st @ [JStr (appointmentKey loc slot)],
                      newNotifications = newNotifications st + 1,
                      trace = tr3\<rparr>
               else Inr (st\<lparr>trace := tr3\<rparr>))
        else Inr (st\<lparr>trace := trace st @ [Log (''    - '' @ formatDate w (startTimestamp slot))]\<rparr>))"
proof -
  have d: "appointmentDate slot = takeWhile (\<lambda>c. c \<noteq> CHR ''T'') (startTimestamp slot)"
    by (simp add: appointmentDate_def hd_js_split)
  have whole: "CHR ''T'' \<notin> set (startTimestamp slot) \<longrightarrow> appointmentDate slot = startTimestamp slot"
    by (auto simp: d takeWhile_eq_all_conv)
  have step: "processSlot w cfg loc slot st =
       (if takeWhile (\<lambda>c. c \<noteq> CHR ''T'') (startTimestamp slot) < targetDate loc
           \<and> JStr (appointmentKey loc slot) \<notin> set (notified st)
        then
          (case sendEmail w cfg (subject_of loc)
                  (message_of w loc slot
                     (trace st @ [Log (''    - '' @ formatDate w (startTimestamp slot)),
                                  Log ''    BETTER APPOINTMENT FOUND!'']))
                  (trace st @ [Log (''    - '' @ formatDate w (startTimestamp slot)),
                               Log ''    BETTER APPOINTMENT FOUND!'']) of
             Inl e \<Rightarrow> Inl e
           | Inr (sent, tr3) \<Rightarrow>
               if sent then
                 Inr \<lparr>notified = notified st @ [JStr (appointmentKey loc slot)],
                      newNotifications = newNotifications st + 1,
                      trace = tr3\<rparr>
               else Inr (st\<lparr>trace := tr3\<rparr>))
        else Inr (st\<lparr>trace := trace st @ [Log (''    - '' @ formatDate w (startTimestamp slot))]\<rparr>))"
  proof (cases "takeWhile (\<lambda>c. c \<noteq> CHR ''T'') (startTimestamp slot) < targetDate loc
           \<and> JStr (appointmentKey loc slot) \<notin> set (notified st)")
    case True
    then have "appointmentDate slot < targetDate loc"
      and "JStr (appointmentKey loc slot) \<notin> set (notified st)"
      by (simp_all add: d)
    then show ?thesis
      using True by (simp only: processSlot_qualifying [of slot loc st w cfg] simp_thms if_True)
  next
    case False
    then have "\<not> (appointmentDate slot < targetDate loc
                \<and> JStr (appointmentKey loc slot) \<notin> set (notified st))"
      by (simp add: d)
    then show ?thesis
      using False by (simp only: processSlot_not_qualifying [of slot loc st w cfg] simp_thms if_False)
  qed
  from d whole step show ?thesis by (intro conjI)
qed

theorem appointmentDate_is_prefix_before_T_witness:
  "appointmentDate example_slot = ''2025-03-15''
   \<and> appointmentDate \<lparr>startTimestamp = ''2025-03-15 09:00''\<rparr> = ''2025-03-15 09:00''
   \<and> \<not> (appointmentDate \<lparr>startTimestamp = ''2025-04-01 09:00''\<rparr> < targetDate example_location)
   \<and> processSlot example_world (fst (CONFIG example_world)) example_location
        \<lparr>startTimestamp = ''2025-04-01 09:00''\<rparr> example_state
     = Inr \<lparr>notified = [], newNotifications = 0, trace = [Log ''    - 2025-04-01 09:00'']\<rparr>"
  using appointmentDate_is_prefix_before_T [of example_slot]
    appointmentDate_is_prefix_before_T
      [of "\<lparr>startTimestamp = ''2025-03-15 09:00''\<rparr>" example_world "fst (CONFIG example_world)"
          example_location example_state]
    appointmentDate_is_prefix_before_T
      [of "\<lparr>startTimestamp = ''2025-04-01 09:00''\<rparr>" example_world "fst (CONFIG example_world)"
          example_location example_state]
  by (simp add: example_slot_def example_location_def example_state_def example_world_def)

section \<open>What the loops preserve\<close>

lemma grows_refl: "grows cfg st st"
  by (simp add: grows_def)

lemma console_not_WriteFile: "is_console e \<Longrightarrow> \<not> is_WriteFile e"
  by (cases e) auto

lemma console_not_SendMail: "is_console e \<Longrightarrow> \<not> is_SendMail e"
  by (cases e) auto

lemma grows_trans:
  assumes "grows cfg a b" and "grows cfg b c"
  shows "grows cfg a c"
proof -
  from assms(1) obtain n1 a1 where
    1: "trace b = trace a @ n1" "notified b = notified a @ a1"
       "\<forall>e \<in> set n1. \<not> is_WriteFile e"
       "\<not> truthy (auth_user (smtp cfg)) \<or> \<not> truthy (auth_pass (smtp cfg)) \<longrightarrow>
             a1 = [] \<and> newNotifications b = newNotifications a
             \<and> (\<forall>e \<in> set n1. \<not> is_SendMail e \<and> e \<noteq> Log ''    BETTER APPOINTMENT FOUND!'')"
    unfolding grows_def by blast
  from assms(2) obtain n2 a2 where
    2: "trace c = trace b @ n2" "notified c = notified b @ a2"
       "\<forall>e \<in> set n2. \<not> is_WriteFile e"
       "\<not> truthy (auth_user (smtp cfg)) \<or> \<not> truthy (auth_pass (smtp cfg)) \<longrightarrow>
             a2 = [] \<and> newNotifications c = newNotifications b
             \<and> (\<forall>e \<in> set n2. \<not> is_SendMail e \<and> e \<noteq> Log ''    BETTER APPOINTMENT FOUND!'')"
    unfolding grows_def by blast
  show ?thesis
    unfolding grows_def
    by (rule exI [of _ "n1 @ n2"], rule exI [of _ "a1 @ a2"]) (use 1 2 in auto)
qed

lemma grows_log:
  "\<forall>e \<in> set new. \<not> is_WriteFile e \<and> \<not> is_SendMail e \<and> e \<noteq> Log ''    BETTER APPOINTMENT FOUND!'' \<Longrightarrow>
   grows cfg st (st\<lparr>trace := trace st @ new\<rparr>)"
  unfolding grows_def
  by (rule exI [of _ new], rule exI [of _ "[]"]) auto

lemma processSlot_grows:
  assumes "processSlot w cfg loc slot st = Inr st'"
  shows "grows cfg st st'"
proof (cases "appointmentDate slot < targetDate loc \<and> JStr (appointmentKey loc slot) \<notin> set (notified st)")
  case False
  with assms show ?thesis
    by (auto simp: processSlot_not_qualifying grows_def)
next
  case q: True
  show ?thesis
  proof (cases "truthy (auth_user (smtp cfg)) \<and> truthy (auth_pass (smtp cfg))")
    case False
    with q assms show ?thesis
      by (simp add: processSlot_qualifying sendEmail_no_credentials)
  next
    case True
    with q assms show ?thesis
      by (auto simp: processSlot_qualifying sendEmail_credentials grows_def split: option.splits)
  qed
qed

lemma processSlot_raises:
  assumes "processSlot w cfg loc slot st = Inl (e, tr)"
  shows "(\<not> truthy (auth_user (smtp cfg)) \<or> \<not> truthy (auth_pass (smtp cfg)))
   \<and> e = Error ''Email credentials not configured. Set SMTP_USER and SMTP_PASS environment variables.''"
proof (cases "appointmentDate slot < targetDate loc \<and> JStr (appointmentKey loc slot) \<notin> set (notified st)")
  case False
  with assms show ?thesis
    by (simp add: processSlot_not_qualifying)
next
  case q: True
  show ?thesis
  proof (cases "truthy (auth_user (smtp cfg)) \<and> truthy (auth_pass (smtp cfg))")
    case False
    with q assms show ?thesis
      by (auto simp: processSlot_qualifying sendEmail_no_credentials)
  next
    case True
    with q assms show ?thesis
      by (auto simp: processSlot_qualifying sendEmail_credentials split: option.splits)
  qed
qed

lemma slotLoop_grows:
  "slotLoop w cfg loc slots st = Inr st' \<Longrightarrow> grows cfg st st'"
proof (induction slots arbitrary: st)
  case Nil
  then show ?case by (simp add: grows_refl)
next
  case (Cons slot slots)
  then show ?case
    by (auto split: sum.splits dest: processSlot_grows intro: grows_trans)
qed

lemma slotLoop_raises:
  "slotLoop w cfg loc slots st = Inl (e, tr) \<Longrightarrow>
   (\<not> truthy (auth_user (smtp cfg)) \<or> \<not> truthy (auth_pass (smtp cfg)))
   \<and> e = Error ''Email credentials not configured. Set SMTP_USER and SMTP_PASS environment variables.''"
proof (induction slots arbitrary: st)
  case Nil
  then show ?case by simp
next
  case (Cons slot slots)
  then show ?case
    by (auto split: sum.splits dest: processSlot_raises)
qed

lemma checkLocation_result:
  "\<exists>slots new. checkLocation w i tr = Inr (slots, tr @ new)
     \<and> (\<forall>e \<in> set new. \<not> is_WriteFile e \<and> \<not> is_SendMail e \<and> e \<noteq> Log ''    BETTER APPOINTMENT FOUND!'')"
  by (cases "axios_get w tr i") (simp_all add: checkLocation_def)

lemma processLocation_grows:
  assumes "processLocation w cfg loc st = Inr st'"
  shows "grows cfg st st'"
proof -
  let ?tr1 = "trace st @ [Log (''Checking: '' @ loc_name loc @ '' (ID: '' @ loc_id loc @ '')''),
                          Log (''  Target date: '' @ targetDate loc)]"
  obtain slots new where c: "checkLocation w (loc_id loc) ?tr1 = Inr (slots, ?tr1 @ new)"
    and new: "\<forall>e \<in> set new. \<not> is_WriteFile e \<and> \<not> is_SendMail e \<and> e \<noteq> Log ''    BETTER APPOINTMENT FOUND!''"
    using checkLocation_result [of w "loc_id loc" ?tr1] by blast
  show ?thesis
  proof (cases "slots = []")
    case True
    with assms c have "st' = st\<lparr>trace := trace st @
        ([Log (''Checking: '' @ loc_name loc @ '' (ID: '' @ loc_id loc @ '')''),
          Log (''  Target date: '' @ targetDate loc)] @ new @
         [Log ''  No appointments available'', Log ''''])\<rparr>"
      by (simp add: processLocation_def)
    moreover have "grows cfg st (st\<lparr>trace := trace st @
        ([Log (''Checking: '' @ loc_name loc @ '' (ID: '' @ loc_id loc @ '')''),
          Log (''  Target date: '' @ targetDate loc)] @ new @
         [Log ''  No appointments available'', Log ''''])\<rparr>)"
      using new by (intro grows_log) auto
    ultimately show ?thesis by simp
  next
    case False
    let ?st1 = "st\<lparr>trace := trace st @
        ([Log (''Checking: '' @ loc_name loc @ '' (ID: '' @ loc_id loc @ '')''),
          Log (''  Target date: '' @ targetDate loc)] @ new @
         [Log (''  Found '' @ js_String (length slots) @ '' appointment(s)'')])\<rparr>"
    from False assms c obtain st2 where
      l: "slotLoop w cfg loc slots ?st1 = Inr st2"
      and st': "st' = st2\<lparr>trace := trace st2 @ [Log '''', Sleep 2000]\<rparr>"
      by (auto simp: processLocation_def split: sum.splits)
    have "grows cfg st ?st1"
      using new by (intro grows_log) auto
    moreover from l have "grows cfg ?st1 st2" by (rule slotLoop_grows)
    moreover have "grows cfg st2 (st2\<lparr>trace := trace st2 @ [Log '''', Sleep 2000]\<rparr>)"
      by (intro grows_log) auto
    ultimately show ?thesis
      unfolding st' by (blast intro: grows_trans)
  qed
qed

lemma processLocation_raises:
  assumes "processLocation w cfg loc st = Inl (e, tr)"
  shows "(\<not> truthy (auth_user (smtp cfg)) \<or> \<not> truthy (auth_pass (smtp cfg)))
   \<and> e = Error ''Email credentials not configured. Set SMTP_USER and SMTP_PASS environment variables.''"
proof -
  let ?tr1 = "trace st @ [Log (''Checking: '' @ loc_name loc @ '' (ID: '' @ loc_id loc @ '')''),
                          Log (''  Target date: '' @ targetDate loc)]"
  obtain slots new where c: "checkLocation w (loc_id loc) ?tr1 = Inr (slots, ?tr1 @ new)"
    using checkLocation_result [of w "loc_id loc" ?tr1] by blast
  with assms show ?thesis
    by (auto simp: processLocation_def split: if_splits sum.splits dest: slotLoop_raises)
qed

lemma locationLoop_grows:
  "locationLoop w cfg locs st = Inr st' \<Longrightarrow> grows cfg st st'"
proof (induction locs arbitrary: st)
  case Nil
  then show ?case by (simp add: grows_refl)
next
  case (Cons loc locs)
  then show ?case
    by (auto split: sum.splits dest: processLocation_grows intro: grows_trans)
qed

lemma locationLoop_raises:
  "locationLoop w cfg locs st = Inl (e, tr) \<Longrightarrow>
   (\<not> truthy (auth_user (smtp cfg)) \<or> \<not> truthy (auth_pass (smtp cfg)))
   \<and> e = Error ''Email credentials not configured. Set SMTP_USER and SMTP_PASS environment variables.''"
proof (induction locs arbitrary: st)
  case Nil
  then show ?case by simp
next
  case (Cons loc locs)
  then show ?case
    by (auto split: sum.splits dest: processLocation_raises)
qed

lemma loadNotifiedAppointments_returns:
  "\<exists>s new. loadNotifiedAppointments f tr = Inr (s, tr @ new)
     \<and> (\<forall>e \<in> set new. is_console e \<and> e \<noteq> Log ''    BETTER APPOINTMENT FOUND!'')"
  by (simp add: loadNotifiedAppointments_def split: sum.splits option.splits)

lemma saveNotifiedAppointments_returns:
  "\<exists>f r new. saveNotifiedAppointments w ns tr = Inr (f, tr @ WriteFile ns r # new)
     \<and> (\<forall>e \<in> set new. is_console e \<and> e \<noteq> Log ''    BETTER APPOINTMENT FOUND!'')
     \<and> (r = None \<longrightarrow> f = Text (Some (JArr ns)))"
  by (cases "writeFileSync w tr ns") (auto simp: saveNotifiedAppointments_def)

section \<open>The whole run\<close>

lemma rule_not_marker: "replicate 60 CHR ''='' \<noteq> ''    BETTER APPOINTMENT FOUND!''"
proof
  assume "replicate 60 CHR ''='' = ''    BETTER APPOINTMENT FOUND!''"
  then have "length (replicate 60 CHR ''='') = length ''    BETTER APPOINTMENT FOUND!''"
    by (rule arg_cong)
  then show False by simp
qed

lemma checkAllLocations_no_locations:
  "locations cfg = [] \<Longrightarrow>
   checkAllLocations w cfg tr =
     Inl (ProcessExit 1,
          tr @ [Log (replicate 60 CHR ''=''),
                Log ''Global Entry Appointment Checker'',
                Log (replicate 60 CHR ''=''),
                Log (''Started: '' @ toISOString w tr),
                Log (''Checking '' @ js_String 0 @ '' location(s)...''),
                Log '''',
                Err ''No locations configured!'',
                Log ''Set the LOCATIONS environment variable in GitHub Secrets.''])"
  by (simp add: checkAllLocations_def)

lemma checkAllLocations_some_locations:
  "locations cfg \<noteq> [] \<Longrightarrow>
   checkAllLocations w cfg tr =
     (case loadNotifiedAppointments (notified_file w)
             (tr @ [Log (replicate 60 CHR ''=''),
                    Log ''Global Entry Appointment Checker'',
                    Log (replicate 60 CHR ''=''),
                    Log (''Started: '' @ toISOString w tr),
                    Log (''Checking '' @ js_String (length (locations cfg)) @ '' location(s)...''),
                    Log '''']) of
        Inl e \<Rightarrow> Inl e
      | Inr (loaded, tr2) \<Rightarrow>
          (case locationLoop w cfg (locations cfg)
                  \<lparr>notified = loaded, newNotifications = 0, trace = tr2\<rparr> of
             Inl e \<Rightarrow> Inl e
           | Inr st \<Rightarrow>
               (case saveNotifiedAppointments w (notified st) (trace st) of
                  Inl e \<Rightarrow> Inl e
                | Inr (f, tr3) \<Rightarrow>
                    Inr (st\<lparr>trace := tr3 @
                           [Log (replicate 60 CHR ''=''),
                            Log ''Summary'',
                            Log (replicate 60 CHR ''=''),
                            Log (''Total locations checked: '' @ js_String (length (locations cfg))),
                            Log (''New notifications sent: '' @ js_String (newNotifications st)),
                            Log (''Total appointments tracked: '' @ js_String (length (notified st))),
                            Log (''Completed: '' @ toISOString w tr3),
                            Log (replicate 60 CHR ''='')]\<rparr>, f))))"
  by (simp add: checkAllLocations_def Let_def)

lemma checkAllLocations_returns:
  assumes "checkAllLocations w cfg tr = Inr (st, f)"
  shows "\<exists>loaded before r summary.
      (\<exists>tr1 tr2. loadNotifiedAppointments (notified_file w) tr1 = Inr (loaded, tr2))
      \<and> (\<exists>added. notified st = loaded @ added)
      \<and> trace st = tr @ before @ [WriteFile (notified st) r] @ summary
      \<and> (\<forall>e \<in> set before. \<not> is_WriteFile e)
      \<and> (\<forall>e \<in> set summary. is_console e)
      \<and> (r = None \<longrightarrow> f = Text (Some (JArr (notified st))))
      \<and> (\<not> truthy (auth_user (smtp cfg)) \<or> \<not> truthy (auth_pass (smtp cfg)) \<longrightarrow>
           notified st = loaded
           \<and> (\<forall>e \<in> set (before @ summary).
                 \<not> is_SendMail e \<and> e \<noteq> Log ''    BETTER APPOINTMENT FOUND!''))"
proof -
  let ?n = "length (locations cfg)"
  let ?header = "[Log (replicate 60 CHR ''=''),
                  Log ''Global Entry Appointment Checker'',
                  Log (replicate 60 CHR ''=''),
                  Log (''Started: '' @ toISOString w tr),
                  Log (''Checking '' @ js_String ?n @ '' location(s)...''),
                  Log '''']"
  have n: "locations cfg \<noteq> []"
  proof
    assume "locations cfg = []"
    from checkAllLocations_no_locations [OF this, of w tr] assms show False by simp
  qed
  note run = checkAllLocations_some_locations [OF n, of w tr]
  obtain loaded new1 where
    load: "loadNotifiedAppointments (notified_file w) (tr @ ?header) = Inr (loaded, (tr @ ?header) @ new1)"
    and new1: "\<forall>e \<in> set new1. is_console e \<and> e \<noteq> Log ''    BETTER APPOINTMENT FOUND!''"
    using loadNotifiedAppointments_returns [of "notified_file w" "tr @ ?header"] by blast
  let ?st0 = "\<lparr>notified = loaded, newNotifications = 0, trace = (tr @ ?header) @ new1\<rparr>"
  obtain st1 where loop: "locationLoop w cfg (locations cfg) ?st0 = Inr st1"
  proof (cases "locationLoop w cfg (locations cfg) ?st0")
    case (Inl e)
    with assms show ?thesis unfolding run load by simp
  next
    case (Inr st1)
    then show ?thesis by (rule that)
  qed
  obtain f1 r new3 where
    save: "saveNotifiedAppointments w (notified st1) (trace st1) = Inr (f1, trace st1 @ WriteFile (notified st1) r # new3)"
    and new3: "\<forall>e \<in> set new3. is_console e \<and> e \<noteq> Log ''    BETTER APPOINTMENT FOUND!''"
    and f1: "r = None \<longrightarrow> f1 = Text (Some (JArr (notified st1)))"
    using saveNotifiedAppointments_returns [of w "notified st1" "trace st1"] by blast
  let ?summary = "new3 @ [Log (replicate 60 CHR ''=''),
                         Log ''Summary'',
                         Log (replicate 60 CHR ''=''),
                         Log (''Total locations checked: '' @ js_String ?n),
                         Log (''New notifications sent: '' @ js_String (newNotifications st1)),
                         Log (''Total appointments tracked: '' @ js_String (length (notified st1))),
                         Log (''Completed: '' @ toISOString w (trace st1 @ WriteFile (notified st1) r # new3)),
                         Log (replicate 60 CHR ''='')]"
  have "st = st1\<lparr>trace := trace st1 @ WriteFile (notified st1) r # ?summary\<rparr> \<and> f = f1"
    using loop save assms unfolding run load by simp
  then have st: "st = st1\<lparr>trace := trace st1 @ WriteFile (notified st1) r # ?summary\<rparr>"
    and f: "f = f1" by simp_all
  from loop have "grows cfg ?st0 st1" by (rule locationLoop_grows)
  then obtain new2 added where
    g: "trace st1 = ((tr @ ?header) @ new1) @ new2" "notified st1 = loaded @ added"
       "\<forall>e \<in> set new2. \<not> is_WriteFile e"
       "\<not> truthy (auth_user (smtp cfg)) \<or> \<not> truthy (auth_pass (smtp cfg)) \<longrightarrow>
             added = []
             \<and> (\<forall>e \<in> set new2. \<not> is_SendMail e \<and> e \<noteq> Log ''    BETTER APPOINTMENT FOUND!'')"
    unfolding grows_def by auto
  let ?before = "?header @ new1 @ new2"
  have 1: "\<exists>tr1 tr2. loadNotifiedAppointments (notified_file w) tr1 = Inr (loaded, tr2)"
    using load by blast
  have 2: "\<exists>added. notified st = loaded @ added"
    using g(2) st by simp
  have 3: "trace st = tr @ ?before @ [WriteFile (notified st) r] @ ?summary"
    using g(1) st by simp
  have 4: "\<forall>e \<in> set ?before. \<not> is_WriteFile e"
    using new1 g(3) by (auto dest: console_not_WriteFile)
  have 5: "\<forall>e \<in> set ?summary. is_console e"
    using new3 by auto
  have 6: "r = None \<longrightarrow> f = Text (Some (JArr (notified st)))"
    using f1 f st by simp
  have 7: "\<not> truthy (auth_user (smtp cfg)) \<or> \<not> truthy (auth_pass (smtp cfg)) \<longrightarrow>
           notified st = loaded
           \<and> (\<forall>e \<in> set (?before @ ?summary).
                 \<not> is_SendMail e \<and> e \<noteq> Log ''    BETTER APPOINTMENT FOUND!'')"
    using new1 new3 g(2) g(4) st rule_not_marker
    by (auto dest: console_not_SendMail)
  show ?thesis
    apply (rule exI [of _ loaded])
    apply (rule exI [of _ ?before])
    apply (rule exI [of _ r])
    apply (rule exI [of _ ?summary])
    using 1 2 3 4 5 6 7 apply (intro conjI)
          apply assumption+
    done
qed

lemma checkAllLocations_raises:
  assumes "checkAllLocations w cfg tr = Inl (e, tr')"
  shows "(locations cfg = [] \<and> e = ProcessExit 1
          \<and> tr' = tr @ [Log (replicate 60 CHR ''=''),
                Log ''Global Entry Appointment Checker'',
                Log (replicate 60 CHR ''=''),
                Log (''Started: '' @ toISOString w tr),
                Log (''Checking '' @ js_String 0 @ '' location(s)...''),
                Log '''',
                Err ''No locations configured!'',
                Log ''Set the LOCATIONS environment variable in GitHub Secrets.''])
       \<or> (locations cfg \<noteq> []
          \<and> (\<not> truthy (auth_user (smtp cfg)) \<or> \<not> truthy (auth_pass (smtp cfg)))
          \<and> e = Error ''Email credentials not configured. Set SMTP_USER and SMTP_PASS environment variables.'')"
proof (cases "locations cfg = []")
  case True
  from checkAllLocations_no_locations [OF this, of w tr] assms True show ?thesis by simp
next
  case False
  note run = checkAllLocations_some_locations [OF False, of w tr]
  let ?header = "[Log (replicate 60 CHR ''=''),
                  Log ''Global Entry Appointment Checker'',
                  Log (replicate 60 CHR ''=''),
                  Log (''Started: '' @ toISOString w tr),
                  Log (''Checking '' @ js_String (length (locations cfg)) @ '' location(s)...''),
                  Log '''']"
  obtain loaded new1 where
    load: "loadNotifiedAppointments (notified_file w) (tr @ ?header) = Inr (loaded, (tr @ ?header) @ new1)"
    using loadNotifiedAppointments_returns [of "notified_file w" "tr @ ?header"] by blast
  let ?st0 = "\<lparr>notified = loaded, newNotifications = 0, trace = (tr @ ?header) @ new1\<rparr>"
  show ?thesis
  proof (cases "locationLoop w cfg (locations cfg) ?st0")
    case (Inl a)
    then have "locationLoop w cfg (locations cfg) ?st0 = Inl (fst a, snd a)" by simp
    from locationLoop_raises [OF this] have
      "(\<not> truthy (auth_user (smtp cfg)) \<or> \<not> truthy (auth_pass (smtp cfg)))
       \<and> fst a = Error ''Email credentials not configured. Set SMTP_USER and SMTP_PASS environment variables.''" .
    moreover have "e = fst a"
      using Inl assms unfolding run load by simp
    ultimately show ?thesis using False by simp
  next
    case (Inr st1)
    obtain f1 r new3 where
      save: "saveNotifiedAppointments w (notified st1) (trace st1) = Inr (f1, trace st1 @ WriteFile (notified st1) r # new3)"
      using saveNotifiedAppointments_returns [of w "notified st1" "trace st1"] by blast
    have False
      using Inr save assms unfolding run load by simp
    then show ?thesis ..
  qed
qed

lemma parseLocations_logs:
  "\<forall>e \<in> set (snd (parseLocations s)). is_console e \<and> e \<noteq> Log ''    BETTER APPOINTMENT FOUND!''"
  by (auto simp: parseLocations_def Let_def concat_snd_parseEntry)

lemma CONFIG_logs:
  "\<forall>e \<in> set (snd (CONFIG w)). is_console e \<and> e \<noteq> Log ''    BETTER APPOINTMENT FOUND!''"
  using parseLocations_logs [of "or_default (LOCATIONS w) []"]
  by (simp add: CONFIG_def split: prod.splits)

lemma CONFIG_smtp:
  "smtp (fst (CONFIG w)) =
     \<lparr>host = or_default (SMTP_HOST w) ''smtp.gmail.com'',
      port = (case SMTP_PORT w of None \<Rightarrow> 587 | Some n \<Rightarrow> if n = 0 then 587 else n),
      secure = False, auth_user = SMTP_USER w, auth_pass = SMTP_PASS w\<rparr>"
  by (simp add: CONFIG_def split: prod.splits)

lemma main_returns:
  "checkAllLocations w (fst (CONFIG w)) (snd (CONFIG w)) = Inr (st, f) \<Longrightarrow>
   main w = \<lparr>exit_code = 0, final_trace = trace st, final_file = f\<rparr>"
  by (cases "CONFIG w") (simp add: main_def)

lemma main_exits:
  "checkAllLocations w (fst (CONFIG w)) (snd (CONFIG w)) = Inl (ProcessExit code, tr') \<Longrightarrow>
   main w = \<lparr>exit_code = code, final_trace = tr', final_file = notified_file w\<rparr>"
  by (cases "CONFIG w") (simp add: main_def)

lemma main_fails:
  "checkAllLocations w (fst (CONFIG w)) (snd (CONFIG w)) = Inl (Error msg, tr') \<Longrightarrow>
   main w = \<lparr>exit_code = 1,
             final_trace = tr' @ [Err (''Fatal error: Error: '' @ msg @ stack_frames w tr')],
             final_file = notified_file w\<rparr>"
  by (cases "CONFIG w") (simp add: main_def)

lemma main_exit_code_0:
  assumes "exit_code (main w) = 0"
  shows "\<exists>st f. checkAllLocations w (fst (CONFIG w)) (snd (CONFIG w)) = Inr (st, f)"
proof (cases "checkAllLocations w (fst (CONFIG w)) (snd (CONFIG w))")
  case (Inl a)
  then have r: "checkAllLocations w (fst (CONFIG w)) (snd (CONFIG w)) = Inl (fst a, snd a)" by simp
  show ?thesis
  proof (cases "fst a")
    case (Error msg)
    with r main_fails [of w msg "snd a"] assms show ?thesis by simp
  next
    case (ProcessExit code)
    with r checkAllLocations_raises [OF r] have "code = 1" by auto
    with ProcessExit r main_exits [of w code "snd a"] assms show ?thesis by simp
  qed
next
  case (Inr b)
  then show ?thesis by (cases b) simp
qed



section \<open>Loading and saving the store\<close>

text \<open>
  C5. Saving a set of key strings and loading the file again gives the same keys,
  provided the write succeeds: the set that \<open>loadNotifiedAppointments\<close> returns
  has exactly the saved keys as elements, and it is the saved list itself, in the same
  order, when that list has no key twice (as every value of a \<open>Set\<close> does).
\<close>

theorem save_then_load_roundtrip:
  "writeFileSync w tr (map JStr ks) = None \<longrightarrow>
     (\<exists>f s. saveNotifiedAppointments w (map JStr ks) tr
               = Inr (f, tr @ [WriteFile (map JStr ks) None])
        \<and> loadNotifiedAppointments f tr' = Inr (s, tr')
        \<and> set s = JStr ` set ks
        \<and> (distinct ks \<longrightarrow> s = map JStr ks))"
proof
  assume ok: "writeFileSync w tr (map JStr ks) = None"
  let ?f = "Text (Some (JArr (map JStr ks)))"
  let ?s = "fold (\<lambda>x s. set_add s x) (map JStr ks) []"
  have save: "saveNotifiedAppointments w (map JStr ks) tr = Inr (?f, tr @ [WriteFile (map JStr ks) None])"
    using ok by (simp add: saveNotifiedAppointments_def)
  have load: "loadNotifiedAppointments ?f tr' = Inr (?s, tr')"
    by (simp add: loadNotifiedAppointments_def load_try_def new_Set_def)
  have elems: "set ?s = JStr ` set ks"
    by (simp add: set_fold_set_add)
  have same: "distinct ks \<longrightarrow> ?s = map JStr ks"
    using fold_set_add_fresh [of ks "[]"] by simp
  from save load elems same
  show "\<exists>f s. saveNotifiedAppointments w (map JStr ks) tr
               = Inr (f, tr @ [WriteFile (map JStr ks) None])
        \<and> loadNotifiedAppointments f tr' = Inr (s, tr')
        \<and> set s = JStr ` set ks
        \<and> (distinct ks \<longrightarrow> s = map JStr ks)"
    by blast
qed

text \<open>
  C4 (as amended). \<open>loadNotifiedAppointments\<close> never throws. It returns the empty
  set when the file is absent, when it cannot be read, when its text is not JSON, and
  when the text is JSON \<open>null\<close>, a boolean, a number or an object; when the file
  cannot be read or its content cannot be parsed or iterated it logs the first-run
  line. It does not check that the content is an array of strings: a JSON array is
  loaded with all its elements, whatever they are, and a JSON string as the set of its
  characters.
\<close>

theorem loadNotifiedAppointments_total:
  "(\<exists>s tr'. loadNotifiedAppointments f tr = Inr (s, tr'))
   \<and> (\<exists>tr'. loadNotifiedAppointments NoFile tr = Inr ([], tr'))
   \<and> loadNotifiedAppointments (Unreadable msg) tr
       = Inr ([], tr @ [Log ''No previous notifications file found (first run)''])
   \<and> loadNotifiedAppointments (Text None) tr
       = Inr ([], tr @ [Log ''No previous notifications file found (first run)''])
   \<and> (v \<in> range JBool \<union> range JNum \<union> range JObj \<longrightarrow>
        loadNotifiedAppointments (Text (Some v)) tr
          = Inr ([], tr @ [Log ''No previous notifications file found (first run)'']))
   \<and> (\<exists>tr'. loadNotifiedAppointments (Text (Some JNull)) tr = Inr ([], tr'))
   \<and> (\<exists>s. loadNotifiedAppointments (Text (Some (JArr xs))) tr = Inr (s, tr) \<and> set s = set xs)
   \<and> (\<exists>s. loadNotifiedAppointments (Text (Some (JStr cs))) tr = Inr (s, tr)
           \<and> set s = (\<lambda>c. JStr [c]) ` set cs)"
proof -
  have 1: "\<exists>s tr'. loadNotifiedAppointments f tr = Inr (s, tr')"
    using loadNotifiedAppointments_returns [of f tr] by blast
  have 2: "\<exists>tr'. loadNotifiedAppointments NoFile tr = Inr ([], tr')"
    by (simp add: loadNotifiedAppointments_def load_try_def)
  have 3: "loadNotifiedAppointments (Unreadable msg) tr
       = Inr ([], tr @ [Log ''No previous notifications file found (first run)''])"
    by (simp add: loadNotifiedAppointments_def load_try_def)
  have 4: "loadNotifiedAppointments (Text None) tr
       = Inr ([], tr @ [Log ''No previous notifications file found (first run)''])"
    by (simp add: loadNotifiedAppointments_def load_try_def)
  have 5: "v \<in> range JBool \<union> range JNum \<union> range JObj \<longrightarrow>
        loadNotifiedAppointments (Text (Some v)) tr
          = Inr ([], tr @ [Log ''No previous notifications file found (first run)''])"
    by (auto simp: loadNotifiedAppointments_def load_try_def new_Set_def)
  have 6: "\<exists>tr'. loadNotifiedAppointments (Text (Some JNull)) tr = Inr ([], tr')"
    by (simp add: loadNotifiedAppointments_def load_try_def new_Set_def)
  have 7: "\<exists>s. loadNotifiedAppointments (Text (Some (JArr xs))) tr = Inr (s, tr) \<and> set s = set xs"
    by (simp add: loadNotifiedAppointments_def load_try_def new_Set_def set_fold_set_add)
  have 8: "\<exists>s. loadNotifiedAppointments (Text (Some (JStr cs))) tr = Inr (s, tr)
           \<and> set s = (\<lambda>c. JStr [c]) ` set cs"
    by (simp add: loadNotifiedAppointments_def load_try_def new_Set_def set_fold_set_add)
  from 1 2 3 4 5 6 7 8 show ?thesis by (intro conjI)
qed

text \<open>The claim as stated fails: the file holds the JSON string \<open>"ab"\<close>, which
  is not an array of strings, and the set loaded is not empty (and nothing is
  logged).\<close>

theorem loadNotifiedAppointments_not_an_array_of_strings:
  "loadNotifiedAppointments (Text (Some (JStr ''ab''))) [] = Inr ([JStr ''a'', JStr ''b''], [])"
  by (simp add: loadNotifiedAppointments_def load_try_def new_Set_def set_add_JStr)

section \<open>Failing requests\<close>

lemma processLocation_fetch_fails:
  assumes "axios_get w (trace st @ [Log (''Checking: '' @ loc_name loc @ '' (ID: '' @ loc_id loc @ '')''),
                                    Log (''  Target date: '' @ targetDate loc)]) (loc_id loc) = Failure msg"
  shows "processLocation w cfg loc st =
     Inr (st\<lparr>trace := trace st @
            [Log (''Checking: '' @ loc_name loc @ '' (ID: '' @ loc_id loc @ '')''),
             Log (''  Target date: '' @ targetDate loc),
             HttpGet (loc_id loc) (Failure msg),
             Err (''Error checking location '' @ loc_id loc @ '': '' @ msg),
             Log ''  No appointments available'', Log '''']\<rparr>)"
  using assms by (simp add: processLocation_def checkLocation_def)

lemma locationLoop_all_fetches_fail:
  assumes "\<forall>tr i. \<exists>msg. axios_get w tr i = Failure msg"
  shows "\<exists>st'. locationLoop w cfg locs st = Inr st' \<and> notified st' = notified st
           \<and> newNotifications st' = newNotifications st
           \<and> (\<forall>e \<in> set (trace st'). is_SendMail e \<longrightarrow> e \<in> set (trace st))"
proof (induction locs arbitrary: st)
  case Nil
  show ?case by simp
next
  case (Cons loc locs)
  let ?tr1 = "trace st @ [Log (''Checking: '' @ loc_name loc @ '' (ID: '' @ loc_id loc @ '')''),
                          Log (''  Target date: '' @ targetDate loc)]"
  from assms obtain msg where f: "axios_get w ?tr1 (loc_id loc) = Failure msg" by blast
  let ?st1 = "st\<lparr>trace := trace st @
            [Log (''Checking: '' @ loc_name loc @ '' (ID: '' @ loc_id loc @ '')''),
             Log (''  Target date: '' @ targetDate loc),
             HttpGet (loc_id loc) (Failure msg),
             Err (''Error checking location '' @ loc_id loc @ '': '' @ msg),
             Log ''  No appointments available'', Log '''']\<rparr>"
  from Cons.IH [of ?st1] obtain st' where
    "locationLoop w cfg locs ?st1 = Inr st'" "notified st' = notified ?st1"
    "newNotifications st' = newNotifications ?st1"
    "\<forall>e \<in> set (trace st'). is_SendMail e \<longrightarrow> e \<in> set (trace ?st1)"
    by blast
  with processLocation_fetch_fails [OF f, of cfg] show ?case
    by auto
qed

text \<open>
  C6. \<open>checkLocation\<close> never throws: it returns the slot list of the response
  (the empty list for an empty body), or, when the request fails, the empty list after
  logging the error. A location whose request fails is processed without an
  exception, leaves the set and the counter as they were, and the loop goes on with the
  next location from there. A run with at least one location in which every request
  fails ends with exit code 0.
\<close>

theorem fetch_failure_is_recovered:
  "(\<exists>slots tr'. checkLocation w i tr = Inr (slots, tr'))
   \<and> (axios_get w tr i = Response d \<longrightarrow>
        checkLocation w i tr =
          Inr ((case d of None \<Rightarrow> [] | Some slots \<Rightarrow> slots), tr @ [HttpGet i (Response d)]))
   \<and> (axios_get w tr i = Failure msg \<longrightarrow>
        checkLocation w i tr =
          Inr ([], tr @ [HttpGet i (Failure msg),
                         Err (''Error checking location '' @ i @ '': '' @ msg)]))
   \<and> (axios_get w (trace st @ [Log (''Checking: '' @ loc_name loc @ '' (ID: '' @ loc_id loc @ '')''),
                                Log (''  Target date: '' @ targetDate loc)]) (loc_id loc) = Failure msg \<longrightarrow>
        (\<exists>st'. processLocation w cfg loc st = Inr st'
           \<and> notified st' = notified st \<and> newNotifications st' = newNotifications st
           \<and> locationLoop w cfg (loc # locs) st = locationLoop w cfg locs st'))
   \<and> ((\<forall>tr i. \<exists>msg. axios_get w tr i = Failure msg) \<and> locations (fst (CONFIG w)) \<noteq> [] \<longrightarrow>
        exit_code (main w) = 0)"
proof -
  have 1: "\<exists>slots tr'. checkLocation w i tr = Inr (slots, tr')"
    using checkLocation_result [of w i tr] by blast
  have 2: "axios_get w tr i = Response d \<longrightarrow>
        checkLocation w i tr =
          Inr ((case d of None \<Rightarrow> [] | Some slots \<Rightarrow> slots), tr @ [HttpGet i (Response d)])"
    by (simp add: checkLocation_def)
  have 3: "axios_get w tr i = Failure msg \<longrightarrow>
        checkLocation w i tr =
          Inr ([], tr @ [HttpGet i (Failure msg),
                         Err (''Error checking location '' @ i @ '': '' @ msg)])"
    by (simp add: checkLocation_def)
  have 4: "axios_get w (trace st @ [Log (''Checking: '' @ loc_name loc @ '' (ID: '' @ loc_id loc @ '')''),
                                Log (''  Target date: '' @ targetDate loc)]) (loc_id loc) = Failure msg \<longrightarrow>
        (\<exists>st'. processLocation w cfg loc st = Inr st'
           \<and> notified st' = notified st \<and> newNotifications st' = newNotifications st
           \<and> locationLoop w cfg (loc # locs) st = locationLoop w cfg locs st')"
  proof
    assume f: "axios_get w (trace st @ [Log (''Checking: '' @ loc_name loc @ '' (ID: '' @ loc_id loc @ '')''),
                                Log (''  Target date: '' @ targetDate loc)]) (loc_id loc) = Failure msg"
    show "\<exists>st'. processLocation w cfg loc st = Inr st'
           \<and> notified st' = notified st \<and> newNotifications st' = newNotifications st
           \<and> locationLoop w cfg (loc # locs) st = locationLoop w cfg locs st'"
      by (simp add: processLocation_fetch_fails [OF f])
  qed
  have 5: "(\<forall>tr i. \<exists>msg. axios_get w tr i = Failure msg) \<and> locations (fst (CONFIG w)) \<noteq> [] \<longrightarrow>
        exit_code (main w) = 0"
  proof
    assume a: "(\<forall>tr i. \<exists>msg. axios_get w tr i = Failure msg) \<and> locations (fst (CONFIG w)) \<noteq> []"
    show "exit_code (main w) = 0"
    proof (cases "checkAllLocations w (fst (CONFIG w)) (snd (CONFIG w))")
      case (Inr b)
      then have "checkAllLocations w (fst (CONFIG w)) (snd (CONFIG w)) = Inr (fst b, snd b)" by simp
      from main_returns [OF this] show ?thesis by simp
    next
      case (Inl b)
      let ?cfg = "fst (CONFIG w)"
      let ?header = "snd (CONFIG w) @ [Log (replicate 60 CHR ''=''),
                    Log ''Global Entry Appointment Checker'',
                    Log (replicate 60 CHR ''=''),
                    Log (''Started: '' @ toISOString w (snd (CONFIG w))),
                    Log (''Checking '' @ js_String (length (locations ?cfg)) @ '' location(s)...''),
                    Log '''']"
      obtain loaded new1 where
        load: "loadNotifiedAppointments (notified_file w) ?header = Inr (loaded, ?header @ new1)"
        using loadNotifiedAppointments_returns [of "notified_file w" ?header] by blast
      obtain st1 where
        loop: "locationLoop w ?cfg (locations ?cfg)
                 \<lparr>notified = loaded, newNotifications = 0, trace = ?header @ new1\<rparr> = Inr st1"
        using locationLoop_all_fetches_fail [of w ?cfg "locations ?cfg"] a by blast
      obtain f1 r new3 where
        save: "saveNotifiedAppointments w (notified st1) (trace st1)
                 = Inr (f1, trace st1 @ WriteFile (notified st1) r # new3)"
        using saveNotifiedAppointments_returns [of w "notified st1" "trace st1"] by blast
      have False
        using a load loop save Inl
        unfolding checkAllLocations_some_locations [OF a [THEN conjunct2], of w "snd (CONFIG w)"]
        by simp
      then show ?thesis ..
    qed
  qed
  from 1 2 3 4 5 show ?thesis by (intro conjI)
qed

section \<open>Failing mails and missing credentials\<close>

lemma processSlot_relay_down:
  assumes down: "\<forall>tr m. sendMail w tr m \<noteq> None"
    and r: "processSlot w cfg loc slot st = Inr st'"
  shows "notified st' = notified st \<and> newNotifications st' = newNotifications st"
proof (cases "appointmentDate slot < targetDate loc \<and> JStr (appointmentKey loc slot) \<notin> set (notified st)")
  case False
  with r show ?thesis
    by (auto simp: processSlot_not_qualifying)
next
  case q: True
  show ?thesis
  proof (cases "truthy (auth_user (smtp cfg)) \<and> truthy (auth_pass (smtp cfg))")
    case False
    with q r show ?thesis
      by (simp add: processSlot_qualifying sendEmail_no_credentials)
  next
    case True
    let ?tr2 = "trace st @ [Log (''    - '' @ formatDate w (startTimestamp slot)),
                            Log ''    BETTER APPOINTMENT FOUND!'']"
    from down obtain msg where
      "sendMail w ?tr2 (mail_of cfg (subject_of loc) (message_of w loc slot ?tr2)) = Some msg"
      by (meson option.exhaust)
    with True q r show ?thesis
      by (auto simp: processSlot_qualifying sendEmail_credentials)
  qed
qed

lemma slotLoop_relay_down:
  assumes "\<forall>tr m. sendMail w tr m \<noteq> None"
  shows "slotLoop w cfg loc slots st = Inr st' \<Longrightarrow>
         notified st' = notified st \<and> newNotifications st' = newNotifications st"
proof (induction slots arbitrary: st)
  case Nil
  then show ?case by simp
next
  case (Cons slot slots)
  then show ?case
    using processSlot_relay_down [OF assms]
    by (fastforce split: sum.splits)
qed

lemma processLocation_relay_down:
  assumes down: "\<forall>tr m. sendMail w tr m \<noteq> None"
    and r: "processLocation w cfg loc st = Inr st'"
  shows "notified st' = notified st \<and> newNotifications st' = newNotifications st"
proof -
  let ?tr1 = "trace st @ [Log (''Checking: '' @ loc_name loc @ '' (ID: '' @ loc_id loc @ '')''),
                          Log (''  Target date: '' @ targetDate loc)]"
  obtain slots new where c: "checkLocation w (loc_id loc) ?tr1 = Inr (slots, ?tr1 @ new)"
    using checkLocation_result [of w "loc_id loc" ?tr1] by blast
  with r show ?thesis
    using slotLoop_relay_down [OF down]
    by (fastforce simp: processLocation_def split: if_splits sum.splits)
qed

lemma locationLoop_relay_down:
  assumes "\<forall>tr m. sendMail w tr m \<noteq> None"
  shows "locationLoop w cfg locs st = Inr st' \<Longrightarrow>
         notified st' = notified st \<and> newNotifications st' = newNotifications st"
proof (induction locs arbitrary: st)
  case Nil
  then show ?case by simp
next
  case (Cons loc locs)
  then show ?case
    using processLocation_relay_down [OF assms]
    by (fastforce split: sum.splits)
qed

lemma checkAllLocations_returns_loop:
  assumes "checkAllLocations w cfg tr = Inr (st, f)"
  shows "\<exists>loaded tr1 tr2 st1 r.
      loadNotifiedAppointments (notified_file w) tr1 = Inr (loaded, tr2)
      \<and> locationLoop w cfg (locations cfg)
            \<lparr>notified = loaded, newNotifications = 0, trace = tr2\<rparr> = Inr st1
      \<and> WriteFile (notified st1) r \<in> set (trace st)
      \<and> (r = None \<longrightarrow> f = Text (Some (JArr (notified st1))))"
proof -
  let ?header = "[Log (replicate 60 CHR ''=''),
                  Log ''Global Entry Appointment Checker'',
                  Log (replicate 60 CHR ''=''),
                  Log (''Started: '' @ toISOString w tr),
                  Log (''Checking '' @ js_String (length (locations cfg)) @ '' location(s)...''),
                  Log '''']"
  have n: "locations cfg \<noteq> []"
  proof
    assume "locations cfg = []"
    from checkAllLocations_no_locations [OF this, of w tr] assms show False by simp
  qed
  note run = checkAllLocations_some_locations [OF n, of w tr]
  obtain loaded new1 where
    load: "loadNotifiedAppointments (notified_file w) (tr @ ?header) = Inr (loaded, (tr @ ?header) @ new1)"
    using loadNotifiedAppointments_returns [of "notified_file w" "tr @ ?header"] by blast
  let ?st0 = "\<lparr>notified = loaded, newNotifications = 0, trace = (tr @ ?header) @ new1\<rparr>"
  obtain st1 where loop: "locationLoop w cfg (locations cfg) ?st0 = Inr st1"
  proof (cases "locationLoop w cfg (locations cfg) ?st0")
    case (Inl e)
    with assms show ?thesis unfolding run load by simp
  next
    case (Inr st1)
    then show ?thesis by (rule that)
  qed
  obtain f1 r new3 where
    save: "saveNotifiedAppointments w (notified st1) (trace st1) = Inr (f1, trace st1 @ WriteFile (notified st1) r # new3)"
    and f1: "r = None \<longrightarrow> f1 = Text (Some (JArr (notified st1)))"
    using saveNotifiedAppointments_returns [of w "notified st1" "trace st1"] by blast
  have "WriteFile (notified st1) r \<in> set (trace st) \<and> f = f1"
    using loop save assms unfolding run load by auto
  with load loop f1 show ?thesis by blast
qed

lemma main_relay_down:
  assumes down: "\<forall>tr m. sendMail w tr m \<noteq> None"
    and e: "exit_code (main w) = 0"
  shows "\<exists>loaded tr1 tr2 r.
      loadNotifiedAppointments (notified_file w) tr1 = Inr (loaded, tr2)
      \<and> WriteFile loaded r \<in> set (final_trace (main w))
      \<and> (r = None \<longrightarrow> final_file (main w) = Text (Some (JArr loaded)))"
proof -
  from e obtain st f where
    run: "checkAllLocations w (fst (CONFIG w)) (snd (CONFIG w)) = Inr (st, f)"
    using main_exit_code_0 by blast
  from checkAllLocations_returns_loop [OF run] obtain loaded tr1 tr2 st1 r where
    s: "loadNotifiedAppointments (notified_file w) tr1 = Inr (loaded, tr2)"
       "locationLoop w (fst (CONFIG w)) (locations (fst (CONFIG w)))
            \<lparr>notified = loaded, newNotifications = 0, trace = tr2\<rparr> = Inr st1"
       "WriteFile (notified st1) r \<in> set (trace st)"
       "r = None \<longrightarrow> f = Text (Some (JArr (notified st1)))"
    by blast
  from locationLoop_relay_down [OF down s(2)] have "notified st1 = loaded" by simp
  with s main_returns [OF run] show ?thesis by auto
qed

text \<open>
  C7. With the credentials present, a mail that the relay refuses makes
  \<open>sendEmail\<close> return false after logging the error. For a qualifying slot this
  means: \<open>processSlot\<close> returns, the set of notified keys and the counter are
  unchanged, the key is still not in the set (so the slot qualifies again in a later
  cycle), and the loop over the slots goes on with the next slot. A run in which the
  relay refuses every mail and that ends with exit code 0 writes the set it loaded:
  no key of a refused mail is saved.
\<close>

theorem send_failure_leaves_key_unnotified:
  "(truthy (auth_user (smtp cfg)) \<and> truthy (auth_pass (smtp cfg)) \<longrightarrow>
     (sendMail w tr (mail_of cfg subject body) = Some msg \<longrightarrow>
        sendEmail w cfg subject body tr =
          Inr (False, tr @ [SendMail (mail_of cfg subject body) (Some msg),
                            Err (''Error sending email: '' @ msg)]))
     \<and> (appointmentDate slot < targetDate loc
        \<and> JStr (appointmentKey loc slot) \<notin> set (notified st)
        \<and> sendMail w (trace st @ [Log (''    - '' @ formatDate w (startTimestamp slot)),
                                  Log ''    BETTER APPOINTMENT FOUND!''])
             (mail_of cfg (subject_of loc)
                (message_of w loc slot
                   (trace st @ [Log (''    - '' @ formatDate w (startTimestamp slot)),
                                Log ''    BETTER APPOINTMENT FOUND!''])))
            = Some msg \<longrightarrow>
        (\<exists>st'. processSlot w cfg loc slot st = Inr st'
           \<and> notified st' = notified st
           \<and> newNotifications st' = newNotifications st
           \<and> JStr (appointmentKey loc slot) \<notin> set (notified st')
           \<and> last (trace st') = Err (''Error sending email: '' @ msg)
           \<and> slotLoop w cfg loc (slot # slots) st = slotLoop w cfg loc slots st')))
   \<and> ((\<forall>tr m. sendMail w tr m \<noteq> None) \<and> exit_code (main w) = 0 \<longrightarrow>
        (\<exists>loaded tr1 tr2 r.
           loadNotifiedAppointments (notified_file w) tr1 = Inr (loaded, tr2)
           \<and> WriteFile loaded r \<in> set (final_trace (main w))
           \<and> (r = None \<longrightarrow> final_file (main w) = Text (Some (JArr loaded)))))"
proof (rule conjI)
  show "truthy (auth_user (smtp cfg)) \<and> truthy (auth_pass (smtp cfg)) \<longrightarrow>
     (sendMail w tr (mail_of cfg subject body) = Some msg \<longrightarrow>
        sendEmail w cfg subject body tr =
          Inr (False, tr @ [SendMail (mail_of cfg subject body) (Some msg),
                            Err (''Error sending email: '' @ msg)]))
     \<and> (appointmentDate slot < targetDate loc
        \<and> JStr (appointmentKey loc slot) \<notin> set (notified st)
        \<and> sendMail w (trace st @ [Log (''    - '' @ formatDate w (startTimestamp slot)),
                                  Log ''    BETTER APPOINTMENT FOUND!''])
             (mail_of cfg (subject_of loc)
                (message_of w loc slot
                   (trace st @ [Log (''    - '' @ formatDate w (startTimestamp slot)),
                                Log ''    BETTER APPOINTMENT FOUND!''])))
            = Some msg \<longrightarrow>
        (\<exists>st'. processSlot w cfg loc slot st = Inr st'
           \<and> notified st' = notified st
           \<and> newNotifications st' = newNotifications st
           \<and> JStr (appointmentKey loc slot) \<notin> set (notified st')
           \<and> last (trace st') = Err (''Error sending email: '' @ msg)
           \<and> slotLoop w cfg loc (slot # slots) st = slotLoop w cfg loc slots st'))"
  proof
    assume c: "truthy (auth_user (smtp cfg)) \<and> truthy (auth_pass (smtp cfg))"
    have 1: "sendMail w tr (mail_of cfg subject body) = Some msg \<longrightarrow>
          sendEmail w cfg subject body tr =
            Inr (False, tr @ [SendMail (mail_of cfg subject body) (Some msg),
                              Err (''Error sending email: '' @ msg)])"
      using c by (simp add: sendEmail_credentials)
    have 2: "appointmentDate slot < targetDate loc
          \<and> JStr (appointmentKey loc slot) \<notin> set (notified st)
          \<and> sendMail w (trace st @ [Log (''    - '' @ formatDate w (startTimestamp slot)),
                                    Log ''    BETTER APPOINTMENT FOUND!''])
               (mail_of cfg (subject_of loc)
                  (message_of w loc slot
                     (trace st @ [Log (''    - '' @ formatDate w (startTimestamp slot)),
                                  Log ''    BETTER APPOINTMENT FOUND!''])))
              = Some msg \<longrightarrow>
          (\<exists>st'. processSlot w cfg loc slot st = Inr st'
             \<and> notified st' = notified st
             \<and> newNotifications st' = newNotifications st
             \<and> JStr (appointmentKey loc slot) \<notin> set (notified st')
             \<and> last (trace st') = Err (''Error sending email: '' @ msg)
             \<and> slotLoop w cfg loc (slot # slots) st = slotLoop w cfg loc slots st')"
      using c by (simp add: processSlot_qualifying sendEmail_credentials)
    from 1 2 show "(sendMail w tr (mail_of cfg subject body) = Some msg \<longrightarrow>
          sendEmail w cfg subject body tr =
            Inr (False, tr @ [SendMail (mail_of cfg subject body) (Some msg),
                              Err (''Error sending email: '' @ msg)]))
       \<and> (appointmentDate slot < targetDate loc
          \<and> JStr (appointmentKey loc slot) \<notin> set (notified st)
          \<and> sendMail w (trace st @ [Log (''    - '' @ formatDate w (startTimestamp slot)),
                                    Log ''    BETTER APPOINTMENT FOUND!''])
               (mail_of cfg (subject_of loc)
                  (message_of w loc slot
                     (trace st @ [Log (''    - '' @ formatDate w (startTimestamp slot)),
                                  Log ''    BETTER APPOINTMENT FOUND!''])))
              = Some msg \<longrightarrow>
          (\<exists>st'. processSlot w cfg loc slot st = Inr st'
             \<and> notified st' = notified st
             \<and> newNotifications st' = newNotifications st
             \<and> JStr (appointmentKey loc slot) \<notin> set (notified st')
             \<and> last (trace st') = Err (''Error sending email: '' @ msg)
             \<and> slotLoop w cfg loc (slot # slots) st = slotLoop w cfg loc slots st'))"
      by (rule conjI)
  qed
next
  show "(\<forall>tr m. sendMail w tr m \<noteq> None) \<and> exit_code (main w) = 0 \<longrightarrow>
        (\<exists>loaded tr1 tr2 r.
           loadNotifiedAppointments (notified_file w) tr1 = Inr (loaded, tr2)
           \<and> WriteFile loaded r \<in> set (final_trace (main w))
           \<and> (r = None \<longrightarrow> final_file (main w) = Text (Some (JArr loaded))))"
    using main_relay_down [of w] by blast
qed

lemma main_announcement_without_credentials:
  assumes c: "\<not> truthy (SMTP_USER w) \<or> \<not> truthy (SMTP_PASS w)"
    and m: "Log ''    BETTER APPOINTMENT FOUND!'' \<in> set (final_trace (main w))"
  shows "exit_code (main w) = 1"
proof -
  let ?cfg = "fst (CONFIG w)"
  let ?tr = "snd (CONFIG w)"
  from c have c': "\<not> truthy (auth_user (smtp ?cfg)) \<or> \<not> truthy (auth_pass (smtp ?cfg))"
    by (simp add: CONFIG_smtp)
  show ?thesis
  proof (cases "checkAllLocations w ?cfg ?tr")
    case (Inr b)
    then have run: "checkAllLocations w ?cfg ?tr = Inr (fst b, snd b)" by simp
    from checkAllLocations_returns [OF run] obtain loaded before r summary where
      "(\<exists>tr1 tr2. loadNotifiedAppointments (notified_file w) tr1 = Inr (loaded, tr2))
       \<and> (\<exists>added. notified (fst b) = loaded @ added)
       \<and> trace (fst b) = ?tr @ before @ [WriteFile (notified (fst b)) r] @ summary
       \<and> (\<forall>e \<in> set before. \<not> is_WriteFile e)
       \<and> (\<forall>e \<in> set summary. is_console e)
       \<and> (r = None \<longrightarrow> snd b = Text (Some (JArr (notified (fst b)))))
       \<and> (\<not> truthy (auth_user (smtp ?cfg)) \<or> \<not> truthy (auth_pass (smtp ?cfg)) \<longrightarrow>
           notified (fst b) = loaded
           \<and> (\<forall>e \<in> set (before @ summary).
                 \<not> is_SendMail e \<and> e \<noteq> Log ''    BETTER APPOINTMENT FOUND!''))"
      by (elim exE) (rule that)
    note s = this
    have t: "trace (fst b) = ?tr @ before @ [WriteFile (notified (fst b)) r] @ summary"
      using s by (elim conjE)
    have q: "\<forall>e \<in> set (before @ summary). e \<noteq> Log ''    BETTER APPOINTMENT FOUND!''"
      using s c' by blast
    have "Log ''    BETTER APPOINTMENT FOUND!'' \<notin> set (trace (fst b))"
      using q CONFIG_logs [of w] unfolding t by auto
    with m main_returns [OF run] show ?thesis by simp
  next
    case (Inl a)
    then have r: "checkAllLocations w ?cfg ?tr = Inl (fst a, snd a)" by simp
    show ?thesis
    proof (cases "fst a")
      case (ProcessExit code)
      with checkAllLocations_raises [OF r] have
        tr': "snd a = ?tr @ [Log (replicate 60 CHR ''=''),
                Log ''Global Entry Appointment Checker'',
                Log (replicate 60 CHR ''=''),
                Log (''Started: '' @ toISOString w ?tr),
                Log (''Checking '' @ js_String 0 @ '' location(s)...''),
                Log '''',
                Err ''No locations configured!'',
                Log ''Set the LOCATIONS environment variable in GitHub Secrets.'']"
        by auto
      have "Log ''    BETTER APPOINTMENT FOUND!'' \<notin> set (snd a)"
        using CONFIG_logs [of w] rule_not_marker unfolding tr' by auto
      with m ProcessExit r main_exits [of w code "snd a"] show ?thesis by simp
    next
      case (Error msg)
      with r main_fails [of w msg "snd a"] show ?thesis by simp
    qed
  qed
qed

text \<open>
  C8 (as amended). When the user or the password of the mail relay is missing (unset or
  empty), building the transporter throws; \<open>sendEmail\<close> does not catch it, so
  processing a qualifying slot throws before any mail is handed over, and the loop
  over the slots passes the error on. A run without user or password that announces a
  better appointment (the line logged just before \<open>sendEmail\<close> is called) ends
  with exit code 1. Host and port are never checked:
  with user and password present the transporter is built, with the defaults
  smtp.gmail.com and 587 where the variables are unset.
\<close>

theorem missing_user_or_password_is_fatal:
  "(\<not> truthy (auth_user (smtp cfg)) \<or> \<not> truthy (auth_pass (smtp cfg)) \<longrightarrow>
      createEmailTransporter cfg =
        Inl (Error ''Email credentials not configured. Set SMTP_USER and SMTP_PASS environment variables.'')
      \<and> sendEmail w cfg subject body tr =
        Inl (Error ''Email credentials not configured. Set SMTP_USER and SMTP_PASS environment variables.'', tr)
      \<and> (appointmentDate slot < targetDate loc
           \<and> JStr (appointmentKey loc slot) \<notin> set (notified st) \<longrightarrow>
         processSlot w cfg loc slot st =
           Inl (Error ''Email credentials not configured. Set SMTP_USER and SMTP_PASS environment variables.'',
                trace st @ [Log (''    - '' @ formatDate w (startTimestamp slot)),
                            Log ''    BETTER APPOINTMENT FOUND!''])
         \<and> slotLoop w cfg loc (slot # slots) st = processSlot w cfg loc slot st))
   \<and> ((\<not> truthy (SMTP_USER w) \<or> \<not> truthy (SMTP_PASS w))
       \<and> Log ''    BETTER APPOINTMENT FOUND!'' \<in> set (final_trace (main w)) \<longrightarrow>
      exit_code (main w) = 1)
   \<and> (truthy (SMTP_USER w) \<and> truthy (SMTP_PASS w) \<longrightarrow>
      createEmailTransporter (fst (CONFIG w)) =
        Inr \<lparr>host = or_default (SMTP_HOST w) ''smtp.gmail.com'',
             port = (case SMTP_PORT w of None \<Rightarrow> 587 | Some n \<Rightarrow> if n = 0 then 587 else n),
             secure = False, auth_user = SMTP_USER w, auth_pass = SMTP_PASS w\<rparr>)"
proof -
  have 1: "\<not> truthy (auth_user (smtp cfg)) \<or> \<not> truthy (auth_pass (smtp cfg)) \<longrightarrow>
      createEmailTransporter cfg =
        Inl (Error ''Email credentials not configured. Set SMTP_USER and SMTP_PASS environment variables.'')
      \<and> sendEmail w cfg subject body tr =
        Inl (Error ''Email credentials not configured. Set SMTP_USER and SMTP_PASS environment variables.'', tr)
      \<and> (appointmentDate slot < targetDate loc
           \<and> JStr (appointmentKey loc slot) \<notin> set (notified st) \<longrightarrow>
         processSlot w cfg loc slot st =
           Inl (Error ''Email credentials not configured. Set SMTP_USER and SMTP_PASS environment variables.'',
                trace st @ [Log (''    - '' @ formatDate w (startTimestamp slot)),
                            Log ''    BETTER APPOINTMENT FOUND!''])
         \<and> slotLoop w cfg loc (slot # slots) st = processSlot w cfg loc slot st)"
    by (auto simp: createEmailTransporter_def sendEmail_no_credentials processSlot_qualifying)
  have 2: "(\<not> truthy (SMTP_USER w) \<or> \<not> truthy (SMTP_PASS w))
       \<and> Log ''    BETTER APPOINTMENT FOUND!'' \<in> set (final_trace (main w)) \<longrightarrow>
      exit_code (main w) = 1"
    using main_announcement_without_credentials [of w] by blast
  have 3: "truthy (SMTP_USER w) \<and> truthy (SMTP_PASS w) \<longrightarrow>
      createEmailTransporter (fst (CONFIG w)) =
        Inr \<lparr>host = or_default (SMTP_HOST w) ''smtp.gmail.com'',
             port = (case SMTP_PORT w of None \<Rightarrow> 587 | Some n \<Rightarrow> if n = 0 then 587 else n),
             secure = False, auth_user = SMTP_USER w, auth_pass = SMTP_PASS w\<rparr>"
    by (simp add: createEmailTransporter_def CONFIG_smtp)
  from 1 2 3 show ?thesis by (intro conjI)
qed

section \<open>The example worlds, evaluated\<close>

lemma js_String_digit: "js_String 0 = ''0''" "js_String 1 = ''1''"
  by (simp_all add: js_String.simps)

lemma example_world_fields:
  "SMTP_HOST example_world = None"
  "SMTP_PORT example_world = None"
  "SMTP_USER example_world = Some ''me@example.com''"
  "SMTP_PASS example_world = Some ''secret''"
  "notified_file example_world = NoFile"
  "axios_get example_world = (\<lambda>tr locationId. Response (Some [\<lparr>startTimestamp = ''2025-03-15T09:00:00''\<rparr>]))"
  "sendMail example_world = (\<lambda>tr m. None)"
  "writeFileSync example_world = (\<lambda>tr content. None)"
  "formatDate example_world = (\<lambda>isoDate. isoDate)"
  "toISOString example_world = (\<lambda>tr. ''2025-01-01T00:00:00.000Z'')"
  "toLocaleString example_world = (\<lambda>tr. ''1/1/2025, 12:00:00 AM'')"
  by (simp_all add: example_world_def)

lemma parseLocations_example:
  "parseLocations ''5140:JFK:2025-04-01'' = ([example_location], [])"
  by (simp add: example_location_def parseLocations_def parseEntry_def js_trim_def
      is_whitespace_def List.map_filter_simps)

lemma CONFIG_example:
  "CONFIG example_world =
     (\<lparr>smtp = \<lparr>host = ''smtp.gmail.com'', port = 587, secure = False,
               auth_user = Some ''me@example.com'', auth_pass = Some ''secret''\<rparr>,
       emailTo = Some ''me@example.com'',
       locations = [example_location]\<rparr>, [])"
  by (simp add: CONFIG_def example_world_def parseLocations_example or_default_def js_or_def
      truthy_def)

lemma CONFIG_example_no_password:
  "CONFIG (example_world\<lparr>SMTP_PASS := None\<rparr>) =
     (\<lparr>smtp = \<lparr>host = ''smtp.gmail.com'', port = 587, secure = False,
               auth_user = Some ''me@example.com'', auth_pass = None\<rparr>,
       emailTo = Some ''me@example.com'',
       locations = [example_location]\<rparr>, [])"
  by (simp add: CONFIG_def example_world_def parseLocations_example or_default_def js_or_def
      truthy_def)

lemma CONFIG_example_other_relay:
  "CONFIG (example_world\<lparr>sendMail := relay\<rparr>) = CONFIG example_world"
  "CONFIG (example_world\<lparr>axios_get := endpoint\<rparr>) = CONFIG example_world"
  by (simp_all add: CONFIG_def)

lemmas run_simps =
  main_def checkAllLocations_def Let_def
  loadNotifiedAppointments_def load_try_def saveNotifiedAppointments_def
  processLocation_def checkLocation_def processSlot_def sendEmail_def
  createEmailTransporter_def truthy_def appointmentDate_def appointmentKey_def
  set_has_JStr set_add_JStr js_String_digit example_world_fields


lemma main_example_no_password:
  "exit_code (main (example_world\<lparr>SMTP_PASS := None\<rparr>)) = 1
   \<and> Log ''    BETTER APPOINTMENT FOUND!'' \<in> set (final_trace (main (example_world\<lparr>SMTP_PASS := None\<rparr>)))
   \<and> final_file (main (example_world\<lparr>SMTP_PASS := None\<rparr>)) = NoFile"
  by (simp add: run_simps CONFIG_example_no_password example_location_def)

section \<open>The theorems at the example worlds\<close>

theorem missing_user_or_password_is_fatal_witness:
  "\<not> truthy (SMTP_PASS (example_world\<lparr>SMTP_PASS := None\<rparr>))
   \<and> createEmailTransporter (fst (CONFIG (example_world\<lparr>SMTP_PASS := None\<rparr>))) =
        Inl (Error ''Email credentials not configured. Set SMTP_USER and SMTP_PASS environment variables.'')
   \<and> processSlot (example_world\<lparr>SMTP_PASS := None\<rparr>)
        (fst (CONFIG (example_world\<lparr>SMTP_PASS := None\<rparr>))) example_location example_slot example_state =
        Inl (Error ''Email credentials not configured. Set SMTP_USER and SMTP_PASS environment variables.'',
             [Log ''    - 2025-03-15T09:00:00'', Log ''    BETTER APPOINTMENT FOUND!''])
   \<and> Log ''    BETTER APPOINTMENT FOUND!'' \<in> set (final_trace (main (example_world\<lparr>SMTP_PASS := None\<rparr>)))
   \<and> exit_code (main (example_world\<lparr>SMTP_PASS := None\<rparr>)) = 1
   \<and> truthy (SMTP_USER example_world) \<and> truthy (SMTP_PASS example_world)
   \<and> createEmailTransporter (fst (CONFIG example_world)) =
        Inr \<lparr>host = ''smtp.gmail.com'', port = 587, secure = False,
             auth_user = Some ''me@example.com'', auth_pass = Some ''secret''\<rparr>"
proof -
  let ?w = "example_world\<lparr>SMTP_PASS := None\<rparr>"
  note t = missing_user_or_password_is_fatal
    [where w = ?w and cfg = "fst (CONFIG ?w)" and loc = example_location and slot = example_slot
       and st = example_state and slots = "[]" and subject = "''s''" and body = "''b''" and tr = "[]"]
  note u = missing_user_or_password_is_fatal
    [where w = example_world and cfg = "fst (CONFIG example_world)" and loc = example_location
       and slot = example_slot and st = example_state and slots = "[]" and subject = "''s''"
       and body = "''b''" and tr = "[]"]
  have c: "\<not> truthy (SMTP_PASS ?w)" by (simp add: truthy_def)
  have q: "appointmentDate example_slot < targetDate example_location
           \<and> JStr (appointmentKey example_location example_slot) \<notin> set (notified example_state)"
    by (simp add: appointmentDate_def example_slot_def example_location_def example_state_def)
  have m: "Log ''    BETTER APPOINTMENT FOUND!'' \<in> set (final_trace (main ?w))"
    using main_example_no_password by simp
  have d: "truthy (SMTP_USER example_world) \<and> truthy (SMTP_PASS example_world)"
    by (simp add: truthy_def example_world_fields)
  from t c q m u d show ?thesis
    by (simp add: CONFIG_example_no_password CONFIG_example example_world_fields
        or_default_def example_slot_def example_state_def)
qed

text \<open>The claim as stated fails for host and port: both are unset here, the
  transporter is built, the mail is sent and the run ends with exit code 0.\<close>

theorem transporter_without_host_and_port:
  "SMTP_HOST example_world = None \<and> SMTP_PORT example_world = None
   \<and> createEmailTransporter (fst (CONFIG example_world)) =
        Inr \<lparr>host = ''smtp.gmail.com'', port = 587, secure = False,
             auth_user = Some ''me@example.com'', auth_pass = Some ''secret''\<rparr>
   \<and> length (filter is_SendMail (final_trace (main example_world))) = 1
   \<and> exit_code (main example_world) = 0"
  by (simp add: run_simps CONFIG_example example_location_def)

theorem save_then_load_roundtrip_witness:
  "writeFileSync example_world [] (map JStr [''5140_2025-03-15T09:00:00'', ''5183_2025-03-16T10:30:00'']) = None
   \<and> (\<exists>f s. saveNotifiedAppointments example_world
                (map JStr [''5140_2025-03-15T09:00:00'', ''5183_2025-03-16T10:30:00'']) []
               = Inr (f, [] @ [WriteFile (map JStr [''5140_2025-03-15T09:00:00'', ''5183_2025-03-16T10:30:00'']) None])
        \<and> loadNotifiedAppointments f [] = Inr (s, [])
        \<and> s = map JStr [''5140_2025-03-15T09:00:00'', ''5183_2025-03-16T10:30:00''])"
proof -
  have ok: "writeFileSync example_world [] (map JStr [''5140_2025-03-15T09:00:00'', ''5183_2025-03-16T10:30:00'']) = None"
    by (simp add: example_world_fields)
  have d: "distinct [''5140_2025-03-15T09:00:00'', ''5183_2025-03-16T10:30:00'']"
    by simp
  from save_then_load_roundtrip
    [where w = example_world and tr = "[]" and tr' = "[]"
       and ks = "[''5140_2025-03-15T09:00:00'', ''5183_2025-03-16T10:30:00'']", THEN mp, OF ok]
  obtain f s where
    "saveNotifiedAppointments example_world
                (map JStr [''5140_2025-03-15T09:00:00'', ''5183_2025-03-16T10:30:00'']) []
               = Inr (f, [] @ [WriteFile (map JStr [''5140_2025-03-15T09:00:00'', ''5183_2025-03-16T10:30:00'']) None])"
    "loadNotifiedAppointments f [] = Inr (s, [])"
    "distinct [''5140_2025-03-15T09:00:00'', ''5183_2025-03-16T10:30:00''] \<longrightarrow>
       s = map JStr [''5140_2025-03-15T09:00:00'', ''5183_2025-03-16T10:30:00'']"
    by (elim exE conjE) (rule that)
  with d ok show ?thesis by (intro conjI exI [of _ f] exI [of _ s]) (assumption | erule (1) mp)+
qed

theorem loadNotifiedAppointments_total_witness:
  "(\<exists>tr'. loadNotifiedAppointments NoFile [] = Inr ([], tr'))
   \<and> loadNotifiedAppointments (Unreadable ''EACCES: permission denied'') []
       = Inr ([], [Log ''No previous notifications file found (first run)''])
   \<and> loadNotifiedAppointments (Text (Some (JObj []))) []
       = Inr ([], [Log ''No previous notifications file found (first run)''])
   \<and> loadNotifiedAppointments (Text (Some (JArr [JStr ''5140_2025-03-15T09:00:00'', JNum ''1'']))) []
       = Inr ([JStr ''5140_2025-03-15T09:00:00'', JNum ''1''], [])"
  using loadNotifiedAppointments_total
    [where f = NoFile and tr = "[]" and msg = "''EACCES: permission denied''" and v = "JObj []"
       and xs = "[JStr ''5140_2025-03-15T09:00:00'', JNum ''1'']" and cs = "''ab''"]
  by (simp add: loadNotifiedAppointments_def load_try_def new_Set_def set_add_def set_has_def)

theorem fetch_failure_is_recovered_witness:
  "axios_get (example_world\<lparr>axios_get := \<lambda>tr locationId. Failure ''timeout of 10000ms exceeded''\<rparr>) [] ''5140''
     = Failure ''timeout of 10000ms exceeded''
   \<and> checkLocation (example_world\<lparr>axios_get := \<lambda>tr locationId. Failure ''timeout of 10000ms exceeded''\<rparr>) ''5140'' []
     = Inr ([], [] @ [HttpGet ''5140'' (Failure ''timeout of 10000ms exceeded''),
                 Err (''Error checking location '' @ ''5140'' @ '': '' @ ''timeout of 10000ms exceeded'')])
   \<and> checkLocation example_world ''5140'' []
     = Inr ((case Some [example_slot] of None \<Rightarrow> [] | Some slots \<Rightarrow> slots),
            [] @ [HttpGet ''5140'' (Response (Some [example_slot]))])
   \<and> (\<exists>st'. processLocation (example_world\<lparr>axios_get := \<lambda>tr locationId. Failure ''timeout of 10000ms exceeded''\<rparr>)
               (fst (CONFIG example_world)) example_location example_state = Inr st'
           \<and> notified st' = notified example_state
           \<and> newNotifications st' = newNotifications example_state
           \<and> locationLoop (example_world\<lparr>axios_get := \<lambda>tr locationId. Failure ''timeout of 10000ms exceeded''\<rparr>)
                (fst (CONFIG example_world)) (example_location # [example_location]) example_state
             = locationLoop (example_world\<lparr>axios_get := \<lambda>tr locationId. Failure ''timeout of 10000ms exceeded''\<rparr>)
                (fst (CONFIG example_world)) [example_location] st')
   \<and> locations (fst (CONFIG (example_world\<lparr>axios_get := \<lambda>tr locationId. Failure ''timeout of 10000ms exceeded''\<rparr>))) \<noteq> []
   \<and> exit_code (main (example_world\<lparr>axios_get := \<lambda>tr locationId. Failure ''timeout of 10000ms exceeded''\<rparr>)) = 0"
proof -
  let ?w = "example_world\<lparr>axios_get := \<lambda>tr locationId. Failure ''timeout of 10000ms exceeded''\<rparr>"
  note t = fetch_failure_is_recovered
    [where w = ?w and i = "''5140''" and tr = "[]" and msg = "''timeout of 10000ms exceeded''"
       and st = example_state and loc = example_location and cfg = "fst (CONFIG example_world)"
       and locs = "[example_location]" and d = None]
  have f0: "axios_get ?w [] ''5140'' = Failure ''timeout of 10000ms exceeded''" by simp
  have f1: "axios_get ?w (trace example_state @
              [Log (''Checking: '' @ loc_name example_location @ '' (ID: '' @ loc_id example_location @ '')''),
               Log (''  Target date: '' @ targetDate example_location)]) (loc_id example_location)
            = Failure ''timeout of 10000ms exceeded''" by simp
  have f: "\<forall>tr i. \<exists>msg. axios_get ?w tr i = Failure msg" by simp
  have l: "locations (fst (CONFIG ?w)) \<noteq> []"
    by (simp add: CONFIG_example_other_relay CONFIG_example)
  note c3 = t [THEN conjunct2, THEN conjunct2, THEN conjunct1, THEN mp, OF f0]
  note c4 = t [THEN conjunct2, THEN conjunct2, THEN conjunct2, THEN conjunct1, THEN mp, OF f1]
  note c5 = t [THEN conjunct2, THEN conjunct2, THEN conjunct2, THEN conjunct2, THEN mp, OF conjI, OF f l]
  have r: "axios_get example_world [] ''5140'' = Response (Some [example_slot])"
    by (simp add: example_world_fields example_slot_def)
  note c2 = fetch_failure_is_recovered
    [where w = example_world and i = "''5140''" and tr = "[]" and d = "Some [example_slot]",
     THEN conjunct2, THEN conjunct1, THEN mp, OF r]
  from f0 c3 c2 c4 l c5 show ?thesis by (intro conjI)
qed

theorem send_failure_leaves_key_unnotified_witness:
  "truthy (auth_user (smtp (fst (CONFIG example_world))))
   \<and> truthy (auth_pass (smtp (fst (CONFIG example_world))))
   \<and> appointmentDate example_slot < targetDate example_location
   \<and> JStr (appointmentKey example_location example_slot) \<notin> set (notified example_state)
   \<and> sendEmail (example_world\<lparr>sendMail := \<lambda>tr m. Some ''connect ECONNREFUSED''\<rparr>)
        (fst (CONFIG example_world)) ''subject'' ''body'' []
     = Inr (False, [] @ [SendMail (mail_of (fst (CONFIG example_world)) ''subject'' ''body'')
                      (Some ''connect ECONNREFUSED''),
                    Err (''Error sending email: '' @ ''connect ECONNREFUSED'')])
   \<and> (\<exists>st'. processSlot (example_world\<lparr>sendMail := \<lambda>tr m. Some ''connect ECONNREFUSED''\<rparr>)
               (fst (CONFIG example_world)) example_location example_slot example_state = Inr st'
         \<and> notified st' = notified example_state
         \<and> newNotifications st' = newNotifications example_state
         \<and> JStr (appointmentKey example_location example_slot) \<notin> set (notified st')
         \<and> last (trace st') = Err (''Error sending email: '' @ ''connect ECONNREFUSED'')
         \<and> slotLoop (example_world\<lparr>sendMail := \<lambda>tr m. Some ''connect ECONNREFUSED''\<rparr>)
              (fst (CONFIG example_world)) example_location (example_slot # [example_slot]) example_state
           = slotLoop (example_world\<lparr>sendMail := \<lambda>tr m. Some ''connect ECONNREFUSED''\<rparr>)
              (fst (CONFIG example_world)) example_location [example_slot] st')
   \<and> exit_code (main (example_world\<lparr>sendMail := \<lambda>tr m. Some ''connect ECONNREFUSED''\<rparr>)) = 0
   \<and> (\<exists>loaded tr1 tr2 r.
         loadNotifiedAppointments
           (notified_file (example_world\<lparr>sendMail := \<lambda>tr m. Some ''connect ECONNREFUSED''\<rparr>)) tr1
           = Inr (loaded, tr2)
         \<and> WriteFile loaded r
             \<in> set (final_trace (main (example_world\<lparr>sendMail := \<lambda>tr m. Some ''connect ECONNREFUSED''\<rparr>)))
         \<and> (r = None \<longrightarrow>
              final_file (main (example_world\<lparr>sendMail := \<lambda>tr m. Some ''connect ECONNREFUSED''\<rparr>))
                = Text (Some (JArr loaded))))"
proof -
  let ?w = "example_world\<lparr>sendMail := \<lambda>tr m. Some ''connect ECONNREFUSED''\<rparr>"
  let ?cfg = "fst (CONFIG example_world)"
  have c: "truthy (auth_user (smtp ?cfg)) \<and> truthy (auth_pass (smtp ?cfg))"
    by (simp add: CONFIG_example truthy_def)
  note t = send_failure_leaves_key_unnotified
    [where w = ?w and cfg = ?cfg and tr = "[]" and subject = "''subject''"
       and body = "''body''" and msg = "''connect ECONNREFUSED''" and slot = example_slot
       and loc = example_location and st = example_state and slots = "[example_slot]",
     THEN conjunct1, THEN mp, OF c]
  have down: "\<forall>tr m. sendMail ?w tr m \<noteq> None" by simp
  have e: "exit_code (main ?w) = 0"
    by (simp add: run_simps CONFIG_example CONFIG_example_other_relay example_location_def)
  note r = send_failure_leaves_key_unnotified
    [where w = ?w, THEN conjunct2, THEN mp, OF conjI, OF down e]
  have q1: "appointmentDate example_slot < targetDate example_location"
    by (simp add: appointmentDate_def example_slot_def example_location_def)
  have q2: "JStr (appointmentKey example_location example_slot) \<notin> set (notified example_state)"
    by (simp add: example_state_def)
  have f1: "sendMail ?w [] (mail_of ?cfg ''subject'' ''body'') = Some ''connect ECONNREFUSED''"
    by simp
  have f2: "sendMail ?w (trace example_state @ [Log (''    - '' @ formatDate ?w (startTimestamp example_slot)),
                                  Log ''    BETTER APPOINTMENT FOUND!''])
             (mail_of ?cfg (subject_of example_location)
                (message_of ?w example_location example_slot
                   (trace example_state @ [Log (''    - '' @ formatDate ?w (startTimestamp example_slot)),
                                Log ''    BETTER APPOINTMENT FOUND!''])))
            = Some ''connect ECONNREFUSED''"
    by simp
  note a = t [THEN conjunct1, THEN mp, OF f1]
  note b = t [THEN conjunct2, THEN mp, OF conjI, OF q1 conjI, OF q2 f2]
  from c [THEN conjunct1] c [THEN conjunct2] q1 q2 a b e r show ?thesis by (intro conjI)
qed



end
